theory Spec2Isabelle
  imports Main "HOL-Library.AList" "HOL-Library.Multiset"
begin

section \<open>CodespaceInfoCLI: a shallow embedding of \<^verbatim>\<open>codespaces.py\<close>\<close>

subsection \<open>Python values\<close>

text \<open>
  The script works on the decoded JSON body of the API response: dictionaries with string
  keys, lists, strings, integers, booleans and \<^verbatim>\<open>None\<close>. A dictionary is an association
  list, in insertion order; \<^verbatim>\<open>d[k] = v\<close> is \<open>AList.update\<close>, which overwrites in
  place or appends. JSON numbers with a fraction (Python floats) are not represented.
  Strings are byte strings: a code point beyond ASCII is its UTF-8 encoding.
\<close>

datatype json =
    JNull
  | JBool bool
  | JInt int
  | JStr string
  | JArr "json list"
  | JObj "(string \<times> json) list"

type_synonym pydict = "(string \<times> json) list"

text \<open>The exceptions that leave a function of the script; \<open>Exit\<close> is \<^verbatim>\<open>typer.Exit(code)\<close>.\<close>

datatype exn =
    Exit int
  | KeyError
  | ValueError
  | TypeError
  | AttributeError
  | NotRenderableError
  | MarkupError

definition bindE :: "exn + 'a \<Rightarrow> ('a \<Rightarrow> exn + 'b) \<Rightarrow> exn + 'b" where
  "bindE m f = (case m of Inl e \<Rightarrow> Inl e | Inr x \<Rightarrow> f x)"

text \<open>Truth value of a Python object, as \<^verbatim>\<open>if x:\<close> tests it.\<close>

fun truthy :: "json \<Rightarrow> bool" where
  "truthy JNull = False"
| "truthy (JBool b) = b"
| "truthy (JInt n) = (n \<noteq> 0)"
| "truthy (JStr s) = (s \<noteq> [])"
| "truthy (JArr xs) = (xs \<noteq> [])"
| "truthy (JObj d) = (d \<noteq> [])"

text \<open>An optional string as \<^verbatim>\<open>if s:\<close> tests it: \<^verbatim>\<open>None\<close> and the empty string
  are false.\<close>

definition nonempty :: "string option \<Rightarrow> string option" where
  "nonempty t = (case t of None \<Rightarrow> None | Some s \<Rightarrow> if s = [] then None else Some s)"

text \<open>\<^verbatim>\<open>d.get(k)\<close> and \<^verbatim>\<open>d.get(k, default)\<close> on a dictionary.\<close>

definition dict_get :: "pydict \<Rightarrow> string \<Rightarrow> json" where
  "dict_get d k = (case map_of d k of None \<Rightarrow> JNull | Some v \<Rightarrow> v)"

definition dict_get_default :: "pydict \<Rightarrow> string \<Rightarrow> json \<Rightarrow> json" where
  "dict_get_default d k dflt = (case map_of d k of None \<Rightarrow> dflt | Some v \<Rightarrow> v)"

text \<open>\<^verbatim>\<open>x[k]\<close> with a string key: KeyError on a dictionary without the key, TypeError on
  any other JSON value.\<close>

fun subscript :: "json \<Rightarrow> string \<Rightarrow> exn + json" where
  "subscript (JObj d) k = (case map_of d k of None \<Rightarrow> Inl KeyError | Some v \<Rightarrow> Inr v)"
| "subscript _ k = Inl TypeError"

text \<open>\<^verbatim>\<open>x.get(k, default)\<close> where \<open>x\<close> may be any JSON value: only a dictionary has \<^verbatim>\<open>get\<close>.\<close>

fun method_get :: "json \<Rightarrow> string \<Rightarrow> json \<Rightarrow> exn + json" where
  "method_get (JObj d) k dflt = Inr (dict_get_default d k dflt)"
| "method_get _ k dflt = Inl AttributeError"

subsection \<open>Strings\<close>

text \<open>\<^verbatim>\<open>s.replace("Z", "+00:00")\<close>: every occurrence of the one-character pattern.\<close>

definition replace_Z :: "string \<Rightarrow> string" where
  "replace_Z s = concat (map (\<lambda>c. if c = CHR ''Z'' then ''+00:00'' else [c]) s)"

text \<open>\<^verbatim>\<open>a in b\<close> on strings: \<open>a\<close> occurs in \<open>b\<close> as a contiguous block.\<close>

fun starts_with :: "string \<Rightarrow> string \<Rightarrow> bool" where
  "starts_with [] ys = True"
| "starts_with (x # xs) [] = False"
| "starts_with (x # xs) (y # ys) = (x = y \<and> starts_with xs ys)"

fun str_in :: "string \<Rightarrow> string \<Rightarrow> bool" where
  "str_in a [] = (a = [])"
| "str_in a (y # ys) = (starts_with a (y # ys) \<or> str_in a ys)"

text \<open>\<^verbatim>\<open>sep.join(parts)\<close>.\<close>

fun join :: "string \<Rightarrow> string list \<Rightarrow> string" where
  "join sep [] = []"
| "join sep [p] = p"
| "join sep (p # q # ps) = p @ sep @ join sep (q # ps)"

text \<open>
  \<^verbatim>\<open>s.strip()\<close> removes the white space at both ends. The white-space characters of
  Python are U+0009 to U+000D, U+001C to U+0020, U+0085, U+00A0, U+1680, U+2000 to U+200A,
  U+2028, U+2029, U+202F, U+205F and U+3000, here in their UTF-8 encodings.
\<close>

definition space_chars :: "string list" where
  "space_chars =
     map (\<lambda>c. [c]) [CHR 0x09, CHR 0x0A, CHR 0x0B, CHR 0x0C, CHR 0x0D,
                     CHR 0x1C, CHR 0x1D, CHR 0x1E, CHR 0x1F, CHR 0x20]
     @ [[CHR 0xC2, CHR 0x85], [CHR 0xC2, CHR 0xA0], [CHR 0xE1, CHR 0x9A, CHR 0x80]]
     @ map (\<lambda>c. [CHR 0xE2, CHR 0x80, c])
         [CHR 0x80, CHR 0x81, CHR 0x82, CHR 0x83, CHR 0x84, CHR 0x85, CHR 0x86, CHR 0x87,
          CHR 0x88, CHR 0x89, CHR 0x8A, CHR 0xA8, CHR 0xA9, CHR 0xAF]
     @ [[CHR 0xE2, CHR 0x81, CHR 0x9F], [CHR 0xE3, CHR 0x80, CHR 0x80]]"

text \<open>The rest of the string after a leading white-space character, when it has one.\<close>

fun after_space :: "string list \<Rightarrow> string \<Rightarrow> string option" where
  "after_space [] s = None"
| "after_space (sp # sps) s =
     (if starts_with sp s then Some (drop (length sp) s) else after_space sps s)"

function lstrip :: "string \<Rightarrow> string" where
  "lstrip s = (case after_space space_chars s of None \<Rightarrow> s | Some s' \<Rightarrow>
                 if length s' < length s then lstrip s' else s)"
  by pat_completeness auto
termination
  by (relation "measure length") auto

declare lstrip.simps [simp del]

text \<open>At the right end the encodings are read backwards.\<close>

function rstrip_rev :: "string \<Rightarrow> string" where
  "rstrip_rev r = (case after_space (map rev space_chars) r of None \<Rightarrow> r | Some r' \<Rightarrow>
                     if length r' < length r then rstrip_rev r' else r)"
  by pat_completeness auto
termination
  by (relation "measure length") auto

declare rstrip_rev.simps [simp del]

definition str_strip :: "string \<Rightarrow> string" where
  "str_strip s = rev (rstrip_rev (rev (lstrip s)))"

text \<open>\<^verbatim>\<open>str(n)\<close> of an integer, as an f-string prints it.\<close>

definition digit_char :: "nat \<Rightarrow> char" where
  "digit_char d = char_of (48 + d)"

function str_nat :: "nat \<Rightarrow> string" where
  "str_nat n = (if n < 10 then [digit_char n] else str_nat (n div 10) @ [digit_char (n mod 10)])"
  by pat_completeness auto
termination
  by (relation "measure id") auto

declare str_nat.simps [simp del]

definition str_int :: "int \<Rightarrow> string" where
  "str_int i = (if i < 0 then CHR ''-'' # str_nat (nat (- i)) else str_nat (nat i))"

subsection \<open>Dates and times\<close>

text \<open>
  A \<^verbatim>\<open>datetime\<close> is a point on the time line in microseconds since the epoch, with the
  offset of its time zone in seconds when it is aware and \<open>None\<close> when it is naive (then
  \<open>instant\<close> is its wall-clock reading). A \<^verbatim>\<open>timedelta\<close> is normalised as Python
  does: \<open>0 \<le> seconds < 86400\<close>, \<open>0 \<le> microseconds < 10^6\<close>, and \<open>days\<close> takes the sign.
\<close>

record datetime =
  instant :: int
  utcoffset :: "int option"

record timedelta =
  td_days :: int
  td_seconds :: int
  td_microseconds :: int

definition timedelta_of_us :: "int \<Rightarrow> timedelta" where
  "timedelta_of_us us =
     \<lparr> td_days = us div 86400000000,
       td_seconds = (us mod 86400000000) div 1000000,
       td_microseconds = us mod 1000000 \<rparr>"

text \<open>Comparing or subtracting a naive and an aware datetime raises TypeError.\<close>

definition dt_le :: "datetime \<Rightarrow> datetime \<Rightarrow> exn + bool" where
  "dt_le a b =
     (if (utcoffset a = None) = (utcoffset b = None) then Inr (instant a \<le> instant b)
      else Inl TypeError)"

definition dt_sub :: "datetime \<Rightarrow> datetime \<Rightarrow> exn + timedelta" where
  "dt_sub a b =
     (if (utcoffset a = None) = (utcoffset b = None)
      then Inr (timedelta_of_us (instant a - instant b))
      else Inl TypeError)"

text \<open>\<^verbatim>\<open>datetime.max.replace(tzinfo=timezone.utc)\<close>: 9999-12-31T23:59:59.999999 UTC.\<close>

definition datetime_max_utc :: datetime where
  "datetime_max_utc = \<lparr> instant = 253402300799999999, utcoffset = Some 0 \<rparr>"

text \<open>
  The functions of the Python libraries that the script calls and that are not modelled
  here: \<^verbatim>\<open>datetime.fromisoformat\<close> (ValueError on a string it rejects),
  \<^verbatim>\<open>datetime.isoformat\<close>, \<^verbatim>\<open>strftime("%Y-%m-%d")\<close> and \<^verbatim>\<open>str.lower\<close>; and, of the
  console library, \<^verbatim>\<open>Style.normalize\<close>, which gives a style name its canonical form,
  and the evaluation of the parameters of a tag whose name starts with \<^verbatim>\<open>@\<close>, of which
  \<open>meta_error\<close> says whether it fails.
  Every function below takes them as the parameter \<open>L\<close>.
\<close>

record pylib =
  fromisoformat :: "string \<Rightarrow> exn + datetime"
  isoformat :: "datetime \<Rightarrow> string"
  strftime_ymd :: "datetime \<Rightarrow> string"
  lower :: "string \<Rightarrow> string"
  style_normalize :: "string \<Rightarrow> string"
  meta_error :: "string \<Rightarrow> bool"

subsection \<open>Console markup\<close>

text \<open>
  \<^verbatim>\<open>console.print\<close> renders a string as console markup before it writes anything. A tag
  is what the library's pattern \<^verbatim>\<open>((\\*)\[([a-z#/@][^[]*?)])\<close> matches, from left to
  right: an opening bracket, a first character that is a lower-case letter or one of
  \<^verbatim>\<open>#\<close>, \<^verbatim>\<open>/\<close>, \<^verbatim>\<open>@\<close>, and the characters up to the next closing bracket, none of
  them an opening bracket. An odd number of backslashes before the opening bracket escapes
  the tag. \<open>scan_tags\<close> reads the string once and gives the texts of the tags that are
  not escaped: \<open>Outside k\<close> has read \<open>k\<close> backslashes in a row, \<open>Opened k\<close> has read an
  opening bracket after \<open>k\<close> backslashes, and \<open>Inside k body b\<close> has read the reversed
  \<open>body\<close> of a tag, which ends with \<open>b\<close> backslashes.
\<close>

datatype scan_state = Outside nat | Opened nat | Inside nat string nat

definition backslash :: char where
  "backslash = CHR 0x5C"

definition tag_start :: "char \<Rightarrow> bool" where
  "tag_start c =
     (let n = of_char c :: nat
      in (97 \<le> n \<and> n \<le> 122) \<or> c = CHR ''#'' \<or> c = CHR ''/'' \<or> c = CHR ''@'')"

fun scan_tags :: "scan_state \<Rightarrow> string \<Rightarrow> string list" where
  "scan_tags st [] = []"
| "scan_tags (Outside k) (c # cs) =
     (if c = backslash then scan_tags (Outside (Suc k)) cs
      else if c = CHR ''['' then scan_tags (Opened k) cs
      else scan_tags (Outside 0) cs)"
| "scan_tags (Opened k) (c # cs) =
     (if tag_start c then scan_tags (Inside k [c] 0) cs
      else if c = CHR ''['' then scan_tags (Opened 0) cs
      else if c = backslash then scan_tags (Outside 1) cs
      else scan_tags (Outside 0) cs)"
| "scan_tags (Inside k body b) (c # cs) =
     (if c = CHR '']'' then (if even k then [rev body] else []) @ scan_tags (Outside 0) cs
      else if c = CHR ''['' then scan_tags (Opened b) cs
      else scan_tags (Inside k (c # body) (if c = backslash then Suc b else 0)) cs)"

text \<open>
  A tag is its name and, after the first \<^verbatim>\<open>=\<close>, its parameters. An opening tag is pushed
  with its normalised name. A closing tag \<^verbatim>\<open>[/name]\<close> takes the nearest open tag of the
  same normalised name, and \<^verbatim>\<open>[/]\<close> the last open tag; the render raises
  \<^verbatim>\<open>MarkupError\<close> when there is none, and when the tag taken has a name that starts with
  \<^verbatim>\<open>@\<close> and parameters whose evaluation fails. Tags left open are closed at the end.
  \<open>render_tags\<close> says whether the render raises.
\<close>

definition partition_eq :: "string \<Rightarrow> string \<times> string option" where
  "partition_eq t =
     (if CHR ''='' \<in> set t
      then (takeWhile (\<lambda>c. c \<noteq> CHR ''='') t, Some (tl (dropWhile (\<lambda>c. c \<noteq> CHR ''='') t)))
      else (t, None))"

fun pop_style ::
  "string \<Rightarrow> (string \<times> string option) list
     \<Rightarrow> ((string \<times> string option) \<times> (string \<times> string option) list) option" where
  "pop_style n [] = None"
| "pop_style n (t # ts) =
     (if fst t = n then Some (t, ts)
      else case pop_style n ts of
             None \<Rightarrow> None
           | Some (found, others) \<Rightarrow> Some (found, t # others))"

definition meta_fails :: "pylib \<Rightarrow> string \<times> string option \<Rightarrow> bool" where
  "meta_fails L open_tag =
     (case open_tag of
        (name, parameters) \<Rightarrow>
          (case parameters of
             None \<Rightarrow> False
           | Some p \<Rightarrow> starts_with ''@'' name \<and> p \<noteq> [] \<and> meta_error L p))"

fun render_tags :: "pylib \<Rightarrow> (string \<times> string option) list \<Rightarrow> string list \<Rightarrow> bool" where
  "render_tags L style_stack [] = False"
| "render_tags L style_stack (t # ts) =
     (case partition_eq t of
        (name, parameters) \<Rightarrow>
          if starts_with ''/'' name then
            (if str_strip (tl name) \<noteq> [] then
               (case pop_style (style_normalize L (str_strip (tl name))) style_stack of
                  None \<Rightarrow> True
                | Some (open_tag, others) \<Rightarrow> meta_fails L open_tag \<or> render_tags L others ts)
             else
               (case style_stack of
                  [] \<Rightarrow> True
                | open_tag # others \<Rightarrow> meta_fails L open_tag \<or> render_tags L others ts))
          else render_tags L ((style_normalize L name, parameters) # style_stack) ts)"

definition markup_error :: "pylib \<Rightarrow> string \<Rightarrow> bool" where
  "markup_error L s = render_tags L [] (scan_tags (Outside 0) s)"

subsection \<open>The world the script runs in\<close>

text \<open>A cell of the table is a string, which the console renders as markup, or a
  \<^verbatim>\<open>Text\<close> with its style, which it does not.\<close>

datatype cell = Plain string | Styled string string

datatype out_event =
    Print string
  | Status string
  | PrintTable "cell list list"
  | PrintJson json

record request =
  req_url :: string
  req_headers :: "(string \<times> string) list"

record response =
  status_code :: int
  reason :: string
  resp_url :: string
  resp_text :: string
  parsed :: "string + json"

datatype http_outcome = Transport_Failure string | Response response

text \<open>
  \<open>clock\<close> gives the successive readings of \<^verbatim>\<open>datetime.now(timezone.utc)\<close> and
  \<open>ticks\<close> counts the readings made; \<open>environ\<close> is the process environment after
  \<^verbatim>\<open>load_dotenv\<close>; \<open>console\<close> collects what is printed; \<open>server\<close> answers a request and
  \<open>sent\<close> collects the requests made.
\<close>

record world =
  clock :: "nat \<Rightarrow> int"
  ticks :: nat
  environ :: "string \<Rightarrow> string option"
  console :: "out_event list"
  server :: "request \<Rightarrow> http_outcome"
  sent :: "request list"

type_synonym 'a io = "world \<Rightarrow> (exn + 'a) \<times> world"

definition returnIO :: "'a \<Rightarrow> 'a io" where
  "returnIO x = (\<lambda>w. (Inr x, w))"

definition raiseIO :: "exn \<Rightarrow> 'a io" where
  "raiseIO e = (\<lambda>w. (Inl e, w))"

definition liftE :: "exn + 'a \<Rightarrow> 'a io" where
  "liftE r = (\<lambda>w. (r, w))"

definition bindIO :: "'a io \<Rightarrow> ('a \<Rightarrow> 'b io) \<Rightarrow> 'b io" where
  "bindIO m f = (\<lambda>w. case m w of (Inl e, w') \<Rightarrow> (Inl e, w') | (Inr x, w') \<Rightarrow> f x w')"

definition now_utc :: "datetime io" where
  "now_utc = (\<lambda>w. (Inr \<lparr> instant = clock w (ticks w), utcoffset = Some 0 \<rparr>,
                    w\<lparr> ticks := Suc (ticks w) \<rparr>))"

text \<open>\<^verbatim>\<open>console.print(s)\<close>: the string is printed unless its render raises.\<close>

definition console_print :: "pylib \<Rightarrow> string \<Rightarrow> unit io" where
  "console_print L s =
     (\<lambda>w. if markup_error L s then (Inl MarkupError, w)
          else (Inr (), w\<lparr> console := console w @ [Print s] \<rparr>))"

definition emit :: "out_event \<Rightarrow> unit io" where
  "emit out = (\<lambda>w. (Inr (), w\<lparr> console := console w @ [out] \<rparr>))"

subsection \<open>\<^verbatim>\<open>calculate_expiration_info\<close>\<close>

text \<open>The label and the colour of an expiration that lies in the future, from the
  normalised difference \<^verbatim>\<open>expires_dt - now\<close>.\<close>

definition time_str :: "timedelta \<Rightarrow> string" where
  "time_str delta =
     (let days = td_days delta; hours = td_seconds delta div 3600 in
      if days = 0 then
        (if hours = 0 then str_int (td_seconds delta div 60) @ ''m''
         else str_int hours @ ''h'')
      else if days = 1 then ''1 day''
      else str_int days @ '' days'')"

definition urgency_color :: "timedelta \<Rightarrow> string" where
  "urgency_color delta =
     (let days = td_days delta in
      if days < 7 then ''red'' else if days < 14 then ''yellow'' else ''green'')"

text \<open>The record is whatever JSON value the list holds: \<^verbatim>\<open>codespace.get\<close> raises
  AttributeError on a value that is not a dictionary.\<close>

definition calculate_expiration_info ::
  "pylib \<Rightarrow> json \<Rightarrow> (datetime option \<times> string option \<times> string) io" where
  "calculate_expiration_info L codespace =
     bindIO (liftE (method_get codespace ''retention_expires_at'' JNull))
       (\<lambda>retention_expires_at.
      if \<not> truthy retention_expires_at then returnIO (None, None, ''gray'')
      else
        (case retention_expires_at of
           JStr s \<Rightarrow>
             bindIO (liftE (fromisoformat L (replace_Z s))) (\<lambda>expires_dt.
             bindIO now_utc (\<lambda>now.
             bindIO (liftE (dt_le expires_dt now)) (\<lambda>expired.
               if expired then returnIO (Some expires_dt, Some ''Expired'', ''red'')
               else
                 bindIO (liftE (dt_sub expires_dt now)) (\<lambda>delta.
                   returnIO (Some expires_dt, Some (time_str delta), urgency_color delta)))))
         | _ \<Rightarrow> raiseIO AttributeError))"

subsection \<open>\<^verbatim>\<open>get_state_color\<close> and \<^verbatim>\<open>format_git_status\<close>\<close>

text \<open>\<^verbatim>\<open>x.lower()\<close>: only a string has the method.\<close>

fun method_lower :: "pylib \<Rightarrow> json \<Rightarrow> exn + string" where
  "method_lower L (JStr s) = Inr (lower L s)"
| "method_lower L _ = Inl AttributeError"

definition get_state_color :: "pylib \<Rightarrow> json \<Rightarrow> exn + string" where
  "get_state_color L state =
     bindE (method_lower L state) (\<lambda>state_lower.
       if state_lower = ''available'' then Inr ''green''
       else if state_lower = ''shutdown'' then Inr ''yellow''
       else Inr ''red'')"

text \<open>The arrows are the UTF-8 encodings of U+2191 and U+2193.\<close>

definition up_arrow :: string where
  "up_arrow = [CHR 0xE2, CHR 0x86, CHR 0x91]"

definition down_arrow :: string where
  "down_arrow = [CHR 0xE2, CHR 0x86, CHR 0x93]"

text \<open>
  \<^verbatim>\<open>if x > 0: parts.append(f"<arrow>{x}")\<close>, as the list of parts appended. An integer is
  compared and printed as it is, a boolean as the integer it is (and printed \<^verbatim>\<open>True\<close>);
  \<^verbatim>\<open>x > 0\<close> raises TypeError on every other JSON value.
\<close>

fun count_part :: "string \<Rightarrow> json \<Rightarrow> exn + string list" where
  "count_part arrow (JInt n) = Inr (if n > 0 then [arrow @ str_int n] else [])"
| "count_part arrow (JBool b) = Inr (if b then [arrow @ ''True''] else [])"
| "count_part arrow _ = Inl TypeError"

definition format_git_status :: "json \<Rightarrow> exn + string" where
  "format_git_status git_status =
     bindE (method_get git_status ''has_uncommitted_changes'' JNull) (\<lambda>uncommitted.
     bindE (method_get git_status ''has_unpushed_changes'' JNull) (\<lambda>unpushed.
     bindE (method_get git_status ''ahead'' (JInt 0)) (\<lambda>ahead.
     bindE (method_get git_status ''behind'' (JInt 0)) (\<lambda>behind.
     bindE (count_part up_arrow ahead) (\<lambda>ahead_parts.
     bindE (count_part down_arrow behind) (\<lambda>behind_parts.
       let parts = (if truthy uncommitted then [''uncommitted''] else [])
                 @ (if truthy unpushed then [''unpushed''] else [])
                 @ ahead_parts @ behind_parts
       in Inr (if parts \<noteq> [] then join '', '' parts else ''clean'')))))))"

subsection \<open>\<^verbatim>\<open>filter_codespaces\<close>\<close>

text \<open>A list comprehension with a condition that may raise: the first exception ends it.\<close>

fun filterE :: "('a \<Rightarrow> exn + bool) \<Rightarrow> 'a list \<Rightarrow> exn + 'a list" where
  "filterE p [] = Inr []"
| "filterE p (x # xs) =
     bindE (p x) (\<lambda>b. bindE (filterE p xs) (\<lambda>ys. Inr (if b then x # ys else ys)))"

text \<open>\<^verbatim>\<open>repo.lower() in cs["repository"]["name"].lower()\<close>\<close>

definition repo_matches :: "pylib \<Rightarrow> string \<Rightarrow> json \<Rightarrow> exn + bool" where
  "repo_matches L repo cs =
     bindE (subscript cs ''repository'') (\<lambda>repository.
     bindE (subscript repository ''name'') (\<lambda>name.
     bindE (method_lower L name) (\<lambda>name_lower.
       Inr (str_in (lower L repo) name_lower))))"

text \<open>\<^verbatim>\<open>cs["state"].lower() == state.lower()\<close>\<close>

definition state_matches :: "pylib \<Rightarrow> string \<Rightarrow> json \<Rightarrow> exn + bool" where
  "state_matches L state cs =
     bindE (subscript cs ''state'') (\<lambda>cs_state.
     bindE (method_lower L cs_state) (\<lambda>state_lower.
       Inr (state_lower = lower L state)))"

text \<open>
  \<^verbatim>\<open>for cs in filtered\<close>: the elements of a list, the keys of a dictionary, the
  characters of a string (each a string; here one per byte), and TypeError on a value that
  cannot be iterated.
\<close>

fun py_iter :: "json \<Rightarrow> exn + json list" where
  "py_iter (JArr xs) = Inr xs"
| "py_iter (JObj d) = Inr (map (\<lambda>kv. JStr (fst kv)) d)"
| "py_iter (JStr s) = Inr (map (\<lambda>c. JStr [c]) s)"
| "py_iter _ = Inl TypeError"

text \<open>The three blocks of \<^verbatim>\<open>filter_codespaces\<close>, each guarded as in the source: an
  option that is \<^verbatim>\<open>None\<close> or the empty string skips the first two, \<^verbatim>\<open>None\<close> the third.
  A block that runs leaves a list; one that is skipped leaves \<^verbatim>\<open>filtered\<close> as it is.\<close>

definition filter_repo :: "pylib \<Rightarrow> string option \<Rightarrow> json \<Rightarrow> exn + json" where
  "filter_repo L repo filtered =
     (case nonempty repo of
        None \<Rightarrow> Inr filtered
      | Some r \<Rightarrow>
          bindE (py_iter filtered) (\<lambda>xs.
          bindE (filterE (repo_matches L r) xs) (\<lambda>ys. Inr (JArr ys))))"

definition filter_state :: "pylib \<Rightarrow> string option \<Rightarrow> json \<Rightarrow> exn + json" where
  "filter_state L state filtered =
     (case nonempty state of
        None \<Rightarrow> Inr filtered
      | Some s \<Rightarrow>
          bindE (py_iter filtered) (\<lambda>xs.
          bindE (filterE (state_matches L s) xs) (\<lambda>ys. Inr (JArr ys))))"

text \<open>The loop over \<^verbatim>\<open>filtered\<close>, with \<^verbatim>\<open>filtered_by_days\<close> as the accumulator.\<close>

fun days_loop ::
  "pylib \<Rightarrow> datetime \<Rightarrow> int \<Rightarrow> json list \<Rightarrow> json list \<Rightarrow> json list io" where
  "days_loop L now days filtered_by_days [] = returnIO filtered_by_days"
| "days_loop L now days filtered_by_days (cs # rest) =
     bindIO (calculate_expiration_info L cs) (\<lambda>(expires_dt, _, _).
       case expires_dt of
         None \<Rightarrow> days_loop L now days filtered_by_days rest
       | Some dt \<Rightarrow>
           bindIO (liftE (dt_sub dt now)) (\<lambda>delta.
             if td_days delta \<le> days
             then days_loop L now days (filtered_by_days @ [cs]) rest
             else days_loop L now days filtered_by_days rest))"

definition filter_days :: "pylib \<Rightarrow> int option \<Rightarrow> json \<Rightarrow> json io" where
  "filter_days L days filtered =
     (case days of
        None \<Rightarrow> returnIO filtered
      | Some d \<Rightarrow>
          bindIO now_utc (\<lambda>now.
          bindIO (liftE (py_iter filtered)) (\<lambda>xs.
          bindIO (days_loop L now d [] xs) (\<lambda>filtered_by_days.
            returnIO (JArr filtered_by_days)))))"

definition filter_codespaces ::
  "pylib \<Rightarrow> json \<Rightarrow> int option \<Rightarrow> string option \<Rightarrow> string option \<Rightarrow> json io" where
  "filter_codespaces L codespaces days repo state =
     bindIO (liftE (filter_repo L repo codespaces)) (\<lambda>filtered1.
     bindIO (liftE (filter_state L state filtered1)) (\<lambda>filtered2.
       filter_days L days filtered2))"

subsection \<open>\<^verbatim>\<open>get_github_token\<close>\<close>

definition newline :: string where
  "newline = [CHR 0x0A]"

definition token_guidance :: "string list" where
  "token_guidance =
     [''[red]Error:[/red] No GitHub token provided.'',
      newline @ ''Please provide a token using one of these methods:'',
      ''1. Pass it as a parameter: [cyan]codespaces --token YOUR_TOKEN[/cyan]'',
      ''2. Set it in your environment: [cyan]export GITHUB_TOKEN=YOUR_TOKEN[/cyan]'',
      ''3. Create a .env file with: [cyan]GITHUB_TOKEN=YOUR_TOKEN[/cyan]'',
      newline @ ''[yellow]Note:[/yellow] The token should be a '' @
        [CHR 0x27] @ ''Personal access token (classic)'' @ [CHR 0x27] @ '' with:'',
      ''  - '' @ [CHR 0x27] @ ''codespace'' @ [CHR 0x27] @ '' permission enabled'',
      ''  - Authorization for any organization that owns your codespaces'']"

fun print_all :: "pylib \<Rightarrow> string list \<Rightarrow> unit io" where
  "print_all L [] = returnIO ()"
| "print_all L (s # ss) = bindIO (console_print L s) (\<lambda>_. print_all L ss)"

definition os_getenv :: "string \<Rightarrow> string option io" where
  "os_getenv name = (\<lambda>w. (Inr (environ w name), w))"

definition get_github_token :: "pylib \<Rightarrow> string option \<Rightarrow> string io" where
  "get_github_token L token =
     (case nonempty token of
        Some t \<Rightarrow> returnIO t
      | None \<Rightarrow>
          bindIO (os_getenv ''GITHUB_TOKEN'') (\<lambda>token.
            case nonempty token of
              Some t \<Rightarrow> returnIO t
            | None \<Rightarrow> bindIO (print_all L token_guidance) (\<lambda>_. raiseIO (Exit 1))))"

subsection \<open>\<^verbatim>\<open>fetch_codespaces\<close>\<close>

text \<open>
  \<^verbatim>\<open>requests.get\<close> sends the request and gives what the server answers: a response, or a
  failure of the transport (a \<^verbatim>\<open>RequestException\<close> with its message).
  \<^verbatim>\<open>Response.raise_for_status\<close> raises \<^verbatim>\<open>HTTPError\<close> for a status from 400 to 599
  and for no other, with the message below. \<^verbatim>\<open>Response.json\<close> gives the decoded body, or
  raises \<^verbatim>\<open>requests.exceptions.JSONDecodeError\<close>, a \<^verbatim>\<open>RequestException\<close>, with the
  decoder's message.
\<close>

definition requests_get :: "string \<Rightarrow> (string \<times> string) list \<Rightarrow> http_outcome io" where
  "requests_get u hs =
     (\<lambda>w. let rq = \<lparr> req_url = u, req_headers = hs \<rparr>
          in (Inr (server w rq), w\<lparr> sent := sent w @ [rq] \<rparr>))"

definition raise_for_status :: "response \<Rightarrow> string option" where
  "raise_for_status r =
     (if 400 \<le> status_code r \<and> status_code r < 500
      then Some (str_int (status_code r) @ '' Client Error: '' @ reason r
                 @ '' for url: '' @ resp_url r)
      else if 500 \<le> status_code r \<and> status_code r < 600
      then Some (str_int (status_code r) @ '' Server Error: '' @ reason r
                 @ '' for url: '' @ resp_url r)
      else None)"

definition fetch_codespaces :: "pylib \<Rightarrow> string \<Rightarrow> json io" where
  "fetch_codespaces L token =
     (let headers = [(''Authorization'', ''token '' @ token),
                     (''Accept'', ''application/vnd.github.v3+json'')] in
      bindIO (requests_get ''https://api.github.com/user/codespaces'' headers) (\<lambda>outcome.
        case outcome of
          Transport_Failure e \<Rightarrow>
            bindIO
              (console_print L (''[red]Error:[/red] Failed to connect to GitHub API: '' @ e))
              (\<lambda>_. raiseIO (Exit 1))
        | Response r \<Rightarrow>
            (case raise_for_status r of
               Some e \<Rightarrow>
                 bindIO
                   (if status_code r = 401 then
                      print_all L
                        [''[red]Error:[/red] Invalid token or insufficient permissions.'',
                         newline @ ''Ensure your token has '' @ [CHR 0x27] @ ''codespace''
                           @ [CHR 0x27]
                           @ '' permission and is authorized for the organization.'']
                    else console_print L (''[red]Error:[/red] GitHub API error: '' @ e))
                   (\<lambda>_. raiseIO (Exit 1))
             | None \<Rightarrow>
                 (case parsed r of
                    Inr data \<Rightarrow> returnIO data
                  | Inl e \<Rightarrow>
                      bindIO
                        (console_print L
                           (''[red]Error:[/red] Failed to connect to GitHub API: '' @ e))
                        (\<lambda>_. raiseIO (Exit 1))))))"

subsection \<open>The renderers\<close>

text \<open>
  A row of the table is its seven cells. \<^verbatim>\<open>Table.add_row\<close> takes a string, takes
  \<^verbatim>\<open>None\<close> as the empty cell and raises \<^verbatim>\<open>NotRenderableError\<close> on any other JSON
  value.
\<close>

fun plain_cell :: "json \<Rightarrow> exn + cell" where
  "plain_cell (JStr s) = Inr (Plain s)"
| "plain_cell JNull = Inr (Plain [])"
| "plain_cell _ = Inl NotRenderableError"

text \<open>The \<^verbatim>\<open>Last Used\<close> column.\<close>

definition last_used_str :: "pylib \<Rightarrow> json \<Rightarrow> exn + string" where
  "last_used_str L cs =
     bindE (method_get cs ''last_used_at'' JNull) (\<lambda>last_used.
      if truthy last_used then
        (case last_used of
           JStr s \<Rightarrow> bindE (fromisoformat L (replace_Z s)) (\<lambda>last_used_dt.
                       Inr (strftime_ymd L last_used_dt))
         | _ \<Rightarrow> Inl AttributeError)
      else Inr ''Never'')"

definition table_row :: "pylib \<Rightarrow> json \<Rightarrow> cell list io" where
  "table_row L cs =
     bindIO (calculate_expiration_info L cs) (\<lambda>(expires_dt, expires_str, expires_color).
     let expires_text = Styled (case expires_str of None \<Rightarrow> ''Active'' | Some s \<Rightarrow> s)
                               expires_color in
     liftE
      (bindE (subscript cs ''state'') (\<lambda>state.
       bindE (get_state_color L state) (\<lambda>state_color.
       bindE (case state of JStr s \<Rightarrow> Inr (Styled s state_color) | _ \<Rightarrow> Inl AttributeError)
         (\<lambda>state_text.
       bindE (last_used_str L cs) (\<lambda>last_used.
       bindE (method_get cs ''machine'' (JObj [])) (\<lambda>machine.
       bindE (method_get machine ''display_name'' (JStr ''Unknown'')) (\<lambda>machine_str.
       bindE (method_get cs ''git_status'' (JObj [])) (\<lambda>git_status.
       bindE (format_git_status git_status) (\<lambda>git_status_str.
       bindE (subscript cs ''display_name'') (\<lambda>display_name.
       bindE (subscript cs ''repository'') (\<lambda>repository.
       bindE (subscript repository ''name'') (\<lambda>repo_name.
       bindE (plain_cell display_name) (\<lambda>c1.
       bindE (plain_cell repo_name) (\<lambda>c2.
       bindE (plain_cell machine_str) (\<lambda>c6.
         Inr [c1, c2, state_text, expires_text, Plain last_used, c6,
              Plain git_status_str]))))))))))))))))"

fun table_rows :: "pylib \<Rightarrow> json list \<Rightarrow> cell list list io" where
  "table_rows L [] = returnIO []"
| "table_rows L (cs # rest) =
     bindIO (table_row L cs) (\<lambda>row.
     bindIO (table_rows L rest) (\<lambda>rows. returnIO (row # rows)))"

text \<open>\<^verbatim>\<open>console.print(table)\<close> renders every string cell as markup, and prints
  nothing when one of them raises.\<close>

fun cell_error :: "pylib \<Rightarrow> cell \<Rightarrow> bool" where
  "cell_error L (Plain s) = markup_error L s"
| "cell_error L (Styled s style) = False"

definition print_table :: "pylib \<Rightarrow> cell list list \<Rightarrow> unit io" where
  "print_table L rows =
     (if list_ex (list_ex (cell_error L)) rows then raiseIO MarkupError
      else emit (PrintTable rows))"

definition print_codespaces_table :: "pylib \<Rightarrow> json list \<Rightarrow> unit io" where
  "print_codespaces_table L codespaces =
     (if codespaces = [] then
        console_print L ''[yellow]No codespaces found matching your criteria.[/yellow]''
      else
        bindIO (table_rows L codespaces) (\<lambda>rows.
        bindIO (print_table L rows) (\<lambda>_.
          console_print L (newline @ ''[dim]Total: '' @ str_int (int (length codespaces))
                           @ '' codespace(s)[/dim]''))))"

text \<open>
  \<^verbatim>\<open>print_codespaces_json\<close> writes the two calculated fields into every dictionary of the
  list, then prints the list. The dictionaries are those of the caller, so the function
  gives back the list as it has left it. \<^verbatim>\<open>cs[key] = value\<close> raises TypeError on a
  value that is not a dictionary.
\<close>

definition add_calculated_fields :: "pylib \<Rightarrow> json \<Rightarrow> json io" where
  "add_calculated_fields L cs =
     bindIO (calculate_expiration_info L cs) (\<lambda>(expires_dt, expires_str, _).
       case cs of
         JObj d \<Rightarrow>
           returnIO
             (JObj (AList.update ''_expires_timestamp''
                (case expires_dt of None \<Rightarrow> JNull | Some dt \<Rightarrow> JStr (isoformat L dt))
                (AList.update ''_expires_in''
                   (case expires_str of None \<Rightarrow> JNull | Some s \<Rightarrow> JStr s) d)))
       | _ \<Rightarrow> raiseIO TypeError)"

fun json_loop :: "pylib \<Rightarrow> json list \<Rightarrow> json list io" where
  "json_loop L [] = returnIO []"
| "json_loop L (cs # rest) =
     bindIO (add_calculated_fields L cs) (\<lambda>cs'.
     bindIO (json_loop L rest) (\<lambda>rest'. returnIO (cs' # rest')))"

definition print_codespaces_json :: "pylib \<Rightarrow> json list \<Rightarrow> json list io" where
  "print_codespaces_json L codespaces =
     bindIO (json_loop L codespaces) (\<lambda>codespaces'.
     bindIO (emit (PrintJson (JArr codespaces'))) (\<lambda>_.
       returnIO codespaces'))"

subsection \<open>\<^verbatim>\<open>main\<close>\<close>

definition sort_key_cs :: "pylib \<Rightarrow> json \<Rightarrow> datetime io" where
  "sort_key_cs L cs =
     bindIO (calculate_expiration_info L cs) (\<lambda>(expires_dt, _, _).
       case expires_dt of
         None \<Rightarrow> returnIO datetime_max_utc
       | Some dt \<Rightarrow> returnIO dt)"

text \<open>
  \<^verbatim>\<open>filtered_codespaces.sort(key=sort_key)\<close>: only a list has the method. It computes
  the key of every element, in list order, and then sorts the elements by their keys
  alone, stably. The keys are aware datetimes, which compare by their instants.
  \<open>sort_key\<close> of the list library is a stable insertion sort.
\<close>

fun sort_keys :: "pylib \<Rightarrow> json list \<Rightarrow> datetime list io" where
  "sort_keys L [] = returnIO []"
| "sort_keys L (cs # rest) =
     bindIO (sort_key_cs L cs) (\<lambda>k.
     bindIO (sort_keys L rest) (\<lambda>ks. returnIO (k # ks)))"

definition list_sort :: "pylib \<Rightarrow> json \<Rightarrow> json list io" where
  "list_sort L filtered_codespaces =
     (case filtered_codespaces of
        JArr xs \<Rightarrow>
          bindIO (sort_keys L xs) (\<lambda>ks.
            returnIO (map snd (sort_key (\<lambda>(k, cs). instant k) (zip ks xs))))
      | _ \<Rightarrow> raiseIO AttributeError)"

definition main ::
  "pylib \<Rightarrow> string option \<Rightarrow> int option \<Rightarrow> string option \<Rightarrow> string option \<Rightarrow> bool
     \<Rightarrow> unit io" where
  "main L token days repo state json_output =
     bindIO (get_github_token L token) (\<lambda>github_token.
     bindIO (emit (Status ''[bold green]Fetching codespaces...'')) (\<lambda>_.
     bindIO (fetch_codespaces L github_token) (\<lambda>data.
     bindIO (liftE (method_get data ''codespaces'' (JArr []))) (\<lambda>codespaces.
       if \<not> truthy codespaces then
         bindIO (console_print L ''[yellow]No codespaces found.[/yellow]'')
           (\<lambda>_. raiseIO (Exit 0))
       else
         bindIO (filter_codespaces L codespaces days repo state) (\<lambda>filtered_codespaces.
         bindIO (list_sort L filtered_codespaces) (\<lambda>sorted_codespaces.
           if json_output
           then bindIO (print_codespaces_json L sorted_codespaces) (\<lambda>_. returnIO ())
           else print_codespaces_table L sorted_codespaces))))))"

text \<open>The exit status of the process: 0 when \<^verbatim>\<open>main\<close> returns, the code of
  \<^verbatim>\<open>typer.Exit\<close>, and 1 for an exception that nothing catches.\<close>

fun exit_status :: "exn + unit \<Rightarrow> int" where
  "exit_status (Inr _) = 0"
| "exit_status (Inl (Exit code)) = code"
| "exit_status (Inl _) = 1"

subsection \<open>An instance of the library functions\<close>

text \<open>
  The theorems below hold for every \<open>L\<close>. To run the model on concrete records,
  \<open>basic_lib\<close> reads and prints the timestamps of the form
  \<^verbatim>\<open>YYYY-MM-DDTHH:MM:SS[.ffffff][+HH:MM]\<close>, where the Python library accepts more,
  lowers the ASCII letters, normalises a style name by stripping and lowering it, and takes the parameters of every tag to evaluate. Days are counted in the proleptic Gregorian calendar from
  1970-01-01.
\<close>

definition digit_val :: "char \<Rightarrow> nat option" where
  "digit_val c = (let n = of_char c :: nat in if 48 \<le> n \<and> n \<le> 57 then Some (n - 48) else None)"

fun digits_val :: "nat \<Rightarrow> string \<Rightarrow> nat option" where
  "digits_val acc [] = Some acc"
| "digits_val acc (c # cs) =
     (case digit_val c of None \<Rightarrow> None | Some d \<Rightarrow> digits_val (10 * acc + d) cs)"

definition number :: "string \<Rightarrow> exn + int" where
  "number s = (case digits_val 0 s of None \<Rightarrow> Inl ValueError | Some n \<Rightarrow> Inr (int n))"

definition is_leap :: "int \<Rightarrow> bool" where
  "is_leap y = (y mod 4 = 0 \<and> (y mod 100 \<noteq> 0 \<or> y mod 400 = 0))"

definition days_in_month :: "int \<Rightarrow> int \<Rightarrow> int" where
  "days_in_month y m =
     (if m = 2 then (if is_leap y then 29 else 28)
      else if m = 4 \<or> m = 6 \<or> m = 9 \<or> m = 11 then 30 else 31)"

definition days_from_civil :: "int \<Rightarrow> int \<Rightarrow> int \<Rightarrow> int" where
  "days_from_civil y m d =
     (let y' = (if m \<le> 2 then y - 1 else y);
          era = y' div 400;
          yoe = y' - era * 400;
          doy = (153 * (if m > 2 then m - 3 else m + 9) + 2) div 5 + d - 1;
          doe = yoe * 365 + yoe div 4 - yoe div 100 + doy
      in era * 146097 + doe - 719468)"

definition civil_from_days :: "int \<Rightarrow> int \<times> int \<times> int" where
  "civil_from_days z0 =
     (let z = z0 + 719468;
          era = z div 146097;
          doe = z - era * 146097;
          yoe = (doe - doe div 1460 + doe div 36524 - doe div 146096) div 365;
          doy = doe - (365 * yoe + yoe div 4 - yoe div 100);
          mp = (5 * doy + 2) div 153;
          d = doy - (153 * mp + 2) div 5 + 1;
          m = (if mp < 10 then mp + 3 else mp - 9);
          y = yoe + era * 400
      in (if m \<le> 2 then y + 1 else y, m, d))"

text \<open>The part of the string after the seconds: nothing, a fraction of six digits, an
  offset, or both; as the microseconds and the offset in seconds.\<close>

definition parse_offset :: "string \<Rightarrow> exn + int option" where
  "parse_offset s =
     (if s = [] then Inr None
      else if length s = 6 \<and> (s ! 0 = CHR ''+'' \<or> s ! 0 = CHR ''-'') \<and> s ! 3 = CHR '':'' then
        bindE (number (take 2 (drop 1 s))) (\<lambda>h.
        bindE (number (drop 4 s)) (\<lambda>m.
          if h < 24 \<and> m < 60
          then Inr (Some ((if s ! 0 = CHR ''-'' then - 1 else 1) * (h * 3600 + m * 60)))
          else Inl ValueError))
      else Inl ValueError)"

definition parse_tail :: "string \<Rightarrow> exn + int \<times> int option" where
  "parse_tail s =
     (if s \<noteq> [] \<and> hd s = CHR ''.'' then
        (if length s < 7 then Inl ValueError
         else bindE (number (take 6 (drop 1 s))) (\<lambda>us.
              bindE (parse_offset (drop 7 s)) (\<lambda>off. Inr (us, off))))
      else bindE (parse_offset s) (\<lambda>off. Inr (0, off)))"

definition basic_fromisoformat :: "string \<Rightarrow> exn + datetime" where
  "basic_fromisoformat s =
     (if length s < 19 \<or> s ! 4 \<noteq> CHR ''-'' \<or> s ! 7 \<noteq> CHR ''-'' \<or> s ! 10 \<noteq> CHR ''T''
         \<or> s ! 13 \<noteq> CHR '':'' \<or> s ! 16 \<noteq> CHR '':'' then Inl ValueError
      else
        bindE (number (take 4 s)) (\<lambda>y.
        bindE (number (take 2 (drop 5 s))) (\<lambda>m.
        bindE (number (take 2 (drop 8 s))) (\<lambda>d.
        bindE (number (take 2 (drop 11 s))) (\<lambda>hh.
        bindE (number (take 2 (drop 14 s))) (\<lambda>mm.
        bindE (number (take 2 (drop 17 s))) (\<lambda>ss.
        bindE (parse_tail (drop 19 s)) (\<lambda>(us, off).
          if 1 \<le> y \<and> 1 \<le> m \<and> m \<le> 12 \<and> 1 \<le> d \<and> d \<le> days_in_month y m
             \<and> hh < 24 \<and> mm < 60 \<and> ss < 60
          then Inr \<lparr> instant =
                      ((days_from_civil y m d * 86400 + hh * 3600 + mm * 60 + ss)
                        - (case off of None \<Rightarrow> 0 | Some sec \<Rightarrow> sec)) * 1000000 + us,
                    utcoffset = off \<rparr>
          else Inl ValueError))))))))"

definition pad :: "nat \<Rightarrow> int \<Rightarrow> string" where
  "pad n i = (let s = str_int i in replicate (n - length s) CHR ''0'' @ s)"

definition local_seconds :: "datetime \<Rightarrow> int" where
  "local_seconds dt =
     instant dt div 1000000 + (case utcoffset dt of None \<Rightarrow> 0 | Some sec \<Rightarrow> sec)"

definition basic_strftime_ymd :: "datetime \<Rightarrow> string" where
  "basic_strftime_ymd dt =
     (case civil_from_days (local_seconds dt div 86400) of
        (y, m, d) \<Rightarrow> pad 4 y @ ''-'' @ pad 2 m @ ''-'' @ pad 2 d)"

definition basic_isoformat :: "datetime \<Rightarrow> string" where
  "basic_isoformat dt =
     (let secs = local_seconds dt mod 86400; us = instant dt mod 1000000 in
      basic_strftime_ymd dt @ ''T'' @ pad 2 (secs div 3600) @ '':''
        @ pad 2 (secs mod 3600 div 60) @ '':'' @ pad 2 (secs mod 60)
        @ (if us = 0 then [] else ''.'' @ pad 6 us)
        @ (case utcoffset dt of
             None \<Rightarrow> []
           | Some sec \<Rightarrow>
               (if sec < 0 then ''-'' else ''+'') @ pad 2 (\<bar>sec\<bar> div 3600) @ '':''
                 @ pad 2 (\<bar>sec\<bar> mod 3600 div 60)
                 @ (if \<bar>sec\<bar> mod 60 = 0 then [] else '':'' @ pad 2 (\<bar>sec\<bar> mod 60))))"

definition ascii_lower :: "string \<Rightarrow> string" where
  "ascii_lower s =
     map (\<lambda>c. let n = of_char c :: nat in if 65 \<le> n \<and> n \<le> 90 then char_of (n + 32) else c) s"

definition basic_lib :: pylib where
  "basic_lib = \<lparr> fromisoformat = basic_fromisoformat, isoformat = basic_isoformat,
                 strftime_ymd = basic_strftime_ymd, lower = ascii_lower,
                 style_normalize = (\<lambda>s. ascii_lower (str_strip s)),
                 meta_error = (\<lambda>p. False) \<rparr>"

text \<open>A world with a constant clock, an environment, a silent console and a server;
  and a server that cannot be reached.\<close>

definition no_server :: "request \<Rightarrow> http_outcome" where
  "no_server rq = Transport_Failure ''unreachable''"


definition a_world :: "int \<Rightarrow> (string \<Rightarrow> string option) \<Rightarrow> (request \<Rightarrow> http_outcome) \<Rightarrow> world" where
  "a_world t e srv =
     \<lparr> clock = (\<lambda>_. t), ticks = 0, environ = e, console = [], server = srv, sent = [] \<rparr>"

subsection \<open>The specification's wording of the label and the urgency\<close>

text \<open>
  Section 4.3 of the specification decomposes the difference \<^verbatim>\<open>expires_at - now\<close>, here in
  microseconds, into whole days and the whole hours and minutes of the remainder, by floor
  division, and chooses the label and the urgency from them.
\<close>

definition spec_days :: "int \<Rightarrow> int" where
  "spec_days us = us div 86400000000"

definition spec_hours :: "int \<Rightarrow> int" where
  "spec_hours us = (us mod 86400000000) div 3600000000"

definition spec_minutes :: "int \<Rightarrow> int" where
  "spec_minutes us = (us mod 86400000000) div 60000000"

definition spec_label :: "int \<Rightarrow> string" where
  "spec_label us =
     (if spec_days us = 0 \<and> spec_hours us = 0 then str_int (spec_minutes us) @ ''m''
      else if spec_days us = 0 \<and> 0 < spec_hours us then str_int (spec_hours us) @ ''h''
      else if spec_days us = 1 then ''1 day''
      else str_int (spec_days us) @ '' days'')"

definition spec_urgency :: "int \<Rightarrow> string" where
  "spec_urgency days =
     (if days < 7 then ''red''
      else if 7 \<le> days \<and> days < 14 then ''yellow''
      else ''green'')"

subsection \<open>Records as the specification's data model has them\<close>

text \<open>
  The expiration of a record: the datetime its \<^verbatim>\<open>retention_expires_at\<close> parses to, and
  none when the field is absent, null or empty. A record is \<open>readable\<close> when the
  calculator returns on it: the field is false as a condition, or a string that parses to
  an aware datetime. It is \<open>well_formed\<close> when moreover \<^verbatim>\<open>repository.name\<close> and
  \<^verbatim>\<open>state\<close> are strings, as section 3 of the specification requires.
\<close>

definition expiration :: "pylib \<Rightarrow> pydict \<Rightarrow> datetime option" where
  "expiration L cs =
     (case dict_get cs ''retention_expires_at'' of
        JStr s \<Rightarrow>
          (if s = [] then None
           else case fromisoformat L (replace_Z s) of Inr dt \<Rightarrow> Some dt | Inl _ \<Rightarrow> None)
      | _ \<Rightarrow> None)"

definition readable :: "pylib \<Rightarrow> pydict \<Rightarrow> bool" where
  "readable L cs =
     (let v = dict_get cs ''retention_expires_at'' in
      if truthy v then
        (case v of
           JStr s \<Rightarrow> (case fromisoformat L (replace_Z s) of
                        Inr dt \<Rightarrow> utcoffset dt \<noteq> None
                      | Inl _ \<Rightarrow> False)
         | _ \<Rightarrow> False)
      else True)"

definition repo_name :: "pydict \<Rightarrow> string option" where
  "repo_name cs =
     (case map_of cs ''repository'' of
        Some (JObj r) \<Rightarrow> (case map_of r ''name'' of Some (JStr n) \<Rightarrow> Some n | _ \<Rightarrow> None)
      | _ \<Rightarrow> None)"

definition state_name :: "pydict \<Rightarrow> string option" where
  "state_name cs = (case map_of cs ''state'' of Some (JStr s) \<Rightarrow> Some s | _ \<Rightarrow> None)"

definition well_formed :: "pylib \<Rightarrow> pydict \<Rightarrow> bool" where
  "well_formed L cs = (readable L cs \<and> repo_name cs \<noteq> None \<and> state_name cs \<noteq> None)"

subsection \<open>The specification's wording of the filters\<close>

text \<open>
  Section 4.4: a case-insensitive substring match on the repository name, a
  case-insensitive equality on the state, and, for the days filter, a record that has an
  expiration whose whole days from \<open>now\<close> are at most the bound. A filter that is not
  supplied passes every record.
\<close>

definition spec_repo :: "pylib \<Rightarrow> string option \<Rightarrow> pydict \<Rightarrow> bool" where
  "spec_repo L repo cs =
     (case nonempty repo of
        None \<Rightarrow> True
      | Some r \<Rightarrow> (case repo_name cs of None \<Rightarrow> False
                                    | Some n \<Rightarrow> str_in (lower L r) (lower L n)))"

definition spec_state :: "pylib \<Rightarrow> string option \<Rightarrow> pydict \<Rightarrow> bool" where
  "spec_state L state cs =
     (case nonempty state of
        None \<Rightarrow> True
      | Some s \<Rightarrow> (case state_name cs of None \<Rightarrow> False | Some n \<Rightarrow> lower L n = lower L s))"

definition spec_within_days :: "pylib \<Rightarrow> int \<Rightarrow> int \<Rightarrow> pydict \<Rightarrow> bool" where
  "spec_within_days L now maxDaysUntilExpiry cs =
     (case expiration L cs of
        None \<Rightarrow> False
      | Some expires_at \<Rightarrow> spec_days (instant expires_at - now) \<le> maxDaysUntilExpiry)"

definition spec_days_filter :: "pylib \<Rightarrow> int \<Rightarrow> int option \<Rightarrow> pydict \<Rightarrow> bool" where
  "spec_days_filter L now days cs =
     (case days of None \<Rightarrow> True | Some d \<Rightarrow> spec_within_days L now d cs)"

text \<open>The three blocks of \<^verbatim>\<open>filter_codespaces\<close> applied in a given order; the source's
  order is repository, state, days.\<close>

datatype stage = ByRepo | ByState | ByDays

fun apply_stage ::
  "pylib \<Rightarrow> int option \<Rightarrow> string option \<Rightarrow> string option \<Rightarrow> stage \<Rightarrow> json
     \<Rightarrow> json io" where
  "apply_stage L days repo state ByRepo filtered = liftE (filter_repo L repo filtered)"
| "apply_stage L days repo state ByState filtered = liftE (filter_state L state filtered)"
| "apply_stage L days repo state ByDays filtered = filter_days L days filtered"

fun apply_stages ::
  "pylib \<Rightarrow> int option \<Rightarrow> string option \<Rightarrow> string option \<Rightarrow> stage list \<Rightarrow> json
     \<Rightarrow> json io" where
  "apply_stages L days repo state [] filtered = returnIO filtered"
| "apply_stages L days repo state (st # sts) filtered =
     bindIO (apply_stage L days repo state st filtered) (apply_stages L days repo state sts)"

fun spec_stage ::
  "pylib \<Rightarrow> int \<Rightarrow> int option \<Rightarrow> string option \<Rightarrow> string option \<Rightarrow> stage \<Rightarrow> pydict
     \<Rightarrow> bool" where
  "spec_stage L now days repo state ByRepo cs = spec_repo L repo cs"
| "spec_stage L now days repo state ByState cs = spec_state L state cs"
| "spec_stage L now days repo state ByDays cs = spec_days_filter L now days cs"

subsection \<open>The specification's wording of the git status, the JSON fields and the sort key\<close>

text \<open>Section 4.6: the parts that apply, in the fixed order, joined by a comma and a
  space, and \<^verbatim>\<open>clean\<close> when none applies. The arrows are written out: U+2191 is the
  bytes E2 86 91 and U+2193 the bytes E2 86 93.\<close>

definition spec_git_parts :: "bool \<Rightarrow> bool \<Rightarrow> int \<Rightarrow> int \<Rightarrow> string list" where
  "spec_git_parts uncommitted unpushed ahead behind =
     (if uncommitted then [''uncommitted''] else [])
     @ (if unpushed then [''unpushed''] else [])
     @ (if 0 < ahead then [[CHR 0xE2, CHR 0x86, CHR 0x91] @ str_int ahead] else [])
     @ (if 0 < behind then [[CHR 0xE2, CHR 0x86, CHR 0x93] @ str_int behind] else [])"

definition spec_git_status :: "bool \<Rightarrow> bool \<Rightarrow> int \<Rightarrow> int \<Rightarrow> string" where
  "spec_git_status uncommitted unpushed ahead behind =
     (if spec_git_parts uncommitted unpushed ahead behind = [] then ''clean''
      else join '', '' (spec_git_parts uncommitted unpushed ahead behind))"

text \<open>An optional integer count of the data model: the integer under the key, 0 when the
  key is absent, and nothing when the value is not an integer.\<close>

definition int_field :: "pydict \<Rightarrow> string \<Rightarrow> int option" where
  "int_field d k =
     (case map_of d k of None \<Rightarrow> Some 0 | Some (JInt n) \<Rightarrow> Some n | Some _ \<Rightarrow> None)"

text \<open>The two fields of the JSON output: the relative label of an expiration read at
  \<open>now\<close>, and its timestamp, each null for a record with no expiration.\<close>

definition spec_expires_in :: "int \<Rightarrow> datetime option \<Rightarrow> json" where
  "spec_expires_in now e =
     (case e of
        None \<Rightarrow> JNull
      | Some dt \<Rightarrow> JStr (if instant dt \<le> now then ''Expired'' else spec_label (instant dt - now)))"

definition spec_expires_timestamp :: "pylib \<Rightarrow> datetime option \<Rightarrow> json" where
  "spec_expires_timestamp L e = (case e of None \<Rightarrow> JNull | Some dt \<Rightarrow> JStr (isoformat L dt))"

text \<open>Section 4.5: the key of a record is the instant of its expiration, and the instant
  of the sentinel for a record with no expiration.\<close>

definition effective_key :: "pylib \<Rightarrow> pydict \<Rightarrow> int" where
  "effective_key L cs =
     (case expiration L cs of None \<Rightarrow> instant datetime_max_utc | Some dt \<Rightarrow> instant dt)"

subsection \<open>Sample records\<close>

text \<open>Four records, read at 2024-01-15T10:30:00Z (1705314600000000 microseconds): one
  that expires in three days, one that does not expire, one that has expired and one that
  expires in a little more than eight days.\<close>

definition demo_soon :: pydict where
  "demo_soon =
     [(''display_name'', JStr ''alpha''),
      (''repository'', JObj [(''name'', JStr ''Web-App'')]),
      (''state'', JStr ''Available''),
      (''retention_expires_at'', JStr ''2024-01-18T10:30:00Z'')]"

definition demo_active :: pydict where
  "demo_active =
     [(''display_name'', JStr ''beta''),
      (''repository'', JObj [(''name'', JStr ''api-server'')]),
      (''state'', JStr ''Shutdown''),
      (''retention_expires_at'', JNull)]"

definition demo_expired :: pydict where
  "demo_expired =
     [(''display_name'', JStr ''gamma''),
      (''repository'', JObj [(''name'', JStr ''web-docs'')]),
      (''state'', JStr ''Shutdown''),
      (''retention_expires_at'', JStr ''2024-01-10T00:00:00Z'')]"

definition demo_later :: pydict where
  "demo_later =
     [(''display_name'', JStr ''delta''),
      (''repository'', JObj [(''name'', JStr ''webhooks'')]),
      (''state'', JStr ''Shutdown''),
      (''retention_expires_at'', JStr ''2024-01-23T10:30:01+00:00'')]"

text \<open>A record whose expiration, 9999-12-31T23:59:59 at one hour west of UTC, is an hour
  after the last second that a UTC datetime can hold.\<close>

definition demo_far :: pydict where
  "demo_far =
     [(''display_name'', JStr ''omega''),
      (''repository'', JObj [(''name'', JStr ''archive'')]),
      (''state'', JStr ''Shutdown''),
      (''retention_expires_at'', JStr ''9999-12-31T23:59:59-01:00'')]"

definition demo_world :: world where
  "demo_world = a_world 1705314600000000 Map.empty no_server"

subsection \<open>The request and sample servers\<close>








section \<open>Properties\<close>

subsection \<open>The expiration calculator\<close>

lemma dict_get_default_null: "dict_get_default d k JNull = dict_get d k"
  by (simp add: dict_get_default_def dict_get_def)

lemma calc_no_expiration:
  "\<not> truthy (dict_get cs ''retention_expires_at'') \<Longrightarrow>
   calculate_expiration_info L (JObj cs) w = (Inr (None, None, ''gray''), w)"
  by (simp add: calculate_expiration_info_def returnIO_def bindIO_def liftE_def
      dict_get_default_null)

lemma calc_parsed:
  assumes "dict_get cs ''retention_expires_at'' = JStr s" and "s \<noteq> []"
    and "fromisoformat L (replace_Z s) = Inr dt" and "utcoffset dt \<noteq> None"
  shows "calculate_expiration_info L (JObj cs) w =
     (Inr (if instant dt \<le> clock w (ticks w) then (Some dt, Some ''Expired'', ''red'')
           else (Some dt, Some (time_str (timedelta_of_us (instant dt - clock w (ticks w)))),
                 urgency_color (timedelta_of_us (instant dt - clock w (ticks w))))),
      w\<lparr> ticks := Suc (ticks w) \<rparr>)"
  using assms
  by (simp add: calculate_expiration_info_def returnIO_def bindIO_def liftE_def now_utc_def
      dt_le_def dt_sub_def dict_get_default_null)

lemma whole_hours: "x div 1000000 div 3600 = x div (3600000000::int)"
  by (simp add: zdiv_zmult2_eq[symmetric])

lemma whole_minutes: "x div 1000000 div 60 = x div (60000000::int)"
  by (simp add: zdiv_zmult2_eq[symmetric])

lemma time_str_us:
  "time_str (timedelta_of_us us) =
     (if us div 86400000000 = 0 then
        (if (us mod 86400000000) div 3600000000 = 0
         then str_int ((us mod 86400000000) div 60000000) @ ''m''
         else str_int ((us mod 86400000000) div 3600000000) @ ''h'')
      else if us div 86400000000 = 1 then ''1 day''
      else str_int (us div 86400000000) @ '' days'')"
  by (simp add: time_str_def timedelta_of_us_def Let_def whole_hours whole_minutes)

lemma urgency_color_us:
  "urgency_color (timedelta_of_us us) =
     (if us div 86400000000 < 7 then ''red''
      else if us div 86400000000 < 14 then ''yellow'' else ''green'')"
  by (simp add: urgency_color_def timedelta_of_us_def Let_def)


lemma spec_label_time_str: "0 \<le> us \<Longrightarrow> time_str (timedelta_of_us us) = spec_label us"
proof -
  assume "0 \<le> us"
  then have "0 \<le> (us mod 86400000000) div 3600000000"
    by (simp add: pos_imp_zdiv_nonneg_iff)
  then show ?thesis
    by (auto simp add: time_str_us spec_label_def spec_days_def spec_hours_def spec_minutes_def)
qed

text \<open>
  C4. A record whose \<^verbatim>\<open>retention_expires_at\<close> is absent (or null, or empty) gets no
  timestamp, no label and the urgency gray, and the clock is not read. A record whose
  timestamp parses to an aware datetime that is not after the reading of the clock gets
  the parsed timestamp, the label \<^verbatim>\<open>Expired\<close> and the urgency red.
\<close>

theorem C4_absent_or_expired:
  "(\<not> truthy (dict_get cs ''retention_expires_at'') \<longrightarrow>
      calculate_expiration_info L (JObj cs) w = (Inr (None, None, ''gray''), w)) \<and>
   (dict_get cs ''retention_expires_at'' = JStr s \<and> s \<noteq> [] \<and>
    fromisoformat L (replace_Z s) = Inr expires_at \<and> utcoffset expires_at \<noteq> None \<and>
    instant expires_at \<le> clock w (ticks w) \<longrightarrow>
      calculate_expiration_info L (JObj cs) w =
        (Inr (Some expires_at, Some ''Expired'', ''red''), w\<lparr> ticks := Suc (ticks w) \<rparr>))"
  by (simp add: calc_no_expiration calc_parsed)

theorem C4_absent_or_expired_witness:
  "calculate_expiration_info basic_lib (JObj [(''display_name'', JStr ''demo'')])
     (a_world 1705314600000000 Map.empty no_server)
   = (Inr (None, None, ''gray''), a_world 1705314600000000 Map.empty no_server) \<and>
   calculate_expiration_info basic_lib (JObj [(''retention_expires_at'', JStr ''2024-01-15T10:30:00Z'')])
     (a_world 1705314600000000 Map.empty no_server)
   = (Inr (Some \<lparr> instant = 1705314600000000, utcoffset = Some 0 \<rparr>, Some ''Expired'', ''red''),
      (a_world 1705314600000000 Map.empty no_server)\<lparr> ticks := 1 \<rparr>)"
proof -
  let ?w = "a_world 1705314600000000 Map.empty no_server"
  let ?dt = "\<lparr> instant = 1705314600000000, utcoffset = Some 0 \<rparr>"
  have a: "\<not> truthy (dict_get [(''display_name'', JStr ''demo'')] ''retention_expires_at'')"
    by code_simp
  have b: "dict_get [(''retention_expires_at'', JStr ''2024-01-15T10:30:00Z'')]
             ''retention_expires_at'' = JStr ''2024-01-15T10:30:00Z''"
    by code_simp
  have c: "fromisoformat basic_lib (replace_Z ''2024-01-15T10:30:00Z'') = Inr ?dt"
    by code_simp
  have d: "instant ?dt \<le> clock ?w (ticks ?w)" "utcoffset ?dt \<noteq> None" "ticks ?w = 0"
    by (simp_all add: a_world_def)
  from C4_absent_or_expired[where cs = "[(''display_name'', JStr ''demo'')]" and L = basic_lib
      and w = ?w] a
    C4_absent_or_expired[where cs = "[(''retention_expires_at'', JStr ''2024-01-15T10:30:00Z'')]"
      and s = "''2024-01-15T10:30:00Z''" and L = basic_lib and expires_at = ?dt and w = ?w]
    b c d
  show ?thesis by simp
qed

text \<open>
  C2. For a record whose timestamp parses to an aware datetime after the reading of the
  clock, the label is the one the specification describes: from the floor-divided whole
  days, and the whole hours and minutes of the remainder, of \<^verbatim>\<open>expires_at - now\<close>:
  minutes when days and hours are 0, hours when days are 0, \<^verbatim>\<open>1 day\<close>, or the days.
  A difference of exactly 23 hours and 59 minutes gives \<^verbatim>\<open>23h\<close>.
\<close>

theorem C2_label_of_future_expiration:
  assumes "dict_get cs ''retention_expires_at'' = JStr s" and "s \<noteq> []"
    and "fromisoformat L (replace_Z s) = Inr expires_at" and "utcoffset expires_at \<noteq> None"
    and "clock w (ticks w) < instant expires_at"
  shows "(\<exists>color. calculate_expiration_info L (JObj cs) w =
            (Inr (Some expires_at, Some (spec_label (instant expires_at - clock w (ticks w))),
                  color),
             w\<lparr> ticks := Suc (ticks w) \<rparr>))
       \<and> (instant expires_at - clock w (ticks w) = 86340000000 \<longrightarrow>
            (\<exists>color. calculate_expiration_info L (JObj cs) w =
               (Inr (Some expires_at, Some ''23h'', color), w\<lparr> ticks := Suc (ticks w) \<rparr>)))"
proof -
  let ?us = "instant expires_at - clock w (ticks w)"
  have pos: "0 \<le> ?us" using assms(5) by simp
  have calc: "calculate_expiration_info L (JObj cs) w =
      (Inr (Some expires_at, Some (spec_label ?us), urgency_color (timedelta_of_us ?us)),
       w\<lparr> ticks := Suc (ticks w) \<rparr>)"
    using assms calc_parsed[OF assms(1-4), of w] spec_label_time_str[OF pos] by simp
  have ex: "spec_label 86340000000 = ''23h''"
    by code_simp
  show ?thesis using calc ex by auto
qed

theorem C2_label_of_future_expiration_witness:
  "calculate_expiration_info basic_lib (JObj [(''retention_expires_at'', JStr ''2024-01-16T10:29:00Z'')])
     (a_world 1705314600000000 Map.empty no_server)
   = (Inr (Some \<lparr> instant = 1705400940000000, utcoffset = Some 0 \<rparr>, Some ''23h'', ''red''),
      (a_world 1705314600000000 Map.empty no_server)\<lparr> ticks := 1 \<rparr>)"
proof -
  let ?w = "a_world 1705314600000000 Map.empty no_server"
  let ?dt = "\<lparr> instant = 1705400940000000, utcoffset = Some 0 \<rparr>"
  let ?cs = "[(''retention_expires_at'', JStr ''2024-01-16T10:29:00Z'')]"
  have a: "dict_get ?cs ''retention_expires_at'' = JStr ''2024-01-16T10:29:00Z''"
    by code_simp
  have b: "''2024-01-16T10:29:00Z'' \<noteq> []" by simp
  have c: "fromisoformat basic_lib (replace_Z ''2024-01-16T10:29:00Z'') = Inr ?dt"
    by code_simp
  have d: "utcoffset ?dt \<noteq> None" by simp
  have e: "clock ?w (ticks ?w) < instant ?dt" by (simp add: a_world_def)
  have f: "instant ?dt - clock ?w (ticks ?w) = 86340000000" "ticks ?w = 0"
    by (simp_all add: a_world_def)
  have g: "urgency_color (timedelta_of_us 86340000000) = ''red''"
    by code_simp
  from C2_label_of_future_expiration[OF a b c d e] f
  have "\<exists>color. calculate_expiration_info basic_lib (JObj ?cs) ?w =
          (Inr (Some ?dt, Some ''23h'', color), ?w\<lparr> ticks := 1 \<rparr>)"
    by simp
  moreover have "snd (snd (projr (fst (calculate_expiration_info basic_lib (JObj ?cs) ?w)))) = ''red''"
    using calc_parsed[OF a b c d, of ?w] e f g by simp
  ultimately show ?thesis by auto
qed

text \<open>
  C3. For a record whose timestamp parses to an aware datetime after the reading of the
  clock, the urgency depends on the whole days of \<^verbatim>\<open>expires_at - now\<close> alone: red below
  7, yellow from 7 and below 14, green from 14. So 6 days give red, 7 and 13 yellow, 14
  green.
\<close>

theorem C3_urgency_of_future_expiration:
  assumes "dict_get cs ''retention_expires_at'' = JStr s" and "s \<noteq> []"
    and "fromisoformat L (replace_Z s) = Inr expires_at" and "utcoffset expires_at \<noteq> None"
    and "clock w (ticks w) < instant expires_at"
  shows "(\<exists>label. calculate_expiration_info L (JObj cs) w =
            (Inr (Some expires_at, label,
                  spec_urgency (spec_days (instant expires_at - clock w (ticks w)))),
             w\<lparr> ticks := Suc (ticks w) \<rparr>))
       \<and> (spec_days (instant expires_at - clock w (ticks w)) = 6 \<longrightarrow>
            (\<exists>label. calculate_expiration_info L (JObj cs) w =
               (Inr (Some expires_at, label, ''red''), w\<lparr> ticks := Suc (ticks w) \<rparr>)))
       \<and> (spec_days (instant expires_at - clock w (ticks w)) = 7 \<longrightarrow>
            (\<exists>label. calculate_expiration_info L (JObj cs) w =
               (Inr (Some expires_at, label, ''yellow''), w\<lparr> ticks := Suc (ticks w) \<rparr>)))
       \<and> (spec_days (instant expires_at - clock w (ticks w)) = 13 \<longrightarrow>
            (\<exists>label. calculate_expiration_info L (JObj cs) w =
               (Inr (Some expires_at, label, ''yellow''), w\<lparr> ticks := Suc (ticks w) \<rparr>)))
       \<and> (spec_days (instant expires_at - clock w (ticks w)) = 14 \<longrightarrow>
            (\<exists>label. calculate_expiration_info L (JObj cs) w =
               (Inr (Some expires_at, label, ''green''), w\<lparr> ticks := Suc (ticks w) \<rparr>)))"
proof -
  let ?us = "instant expires_at - clock w (ticks w)"
  have "urgency_color (timedelta_of_us ?us) = spec_urgency (spec_days ?us)"
    by (simp add: urgency_color_us spec_urgency_def spec_days_def)
  then have "calculate_expiration_info L (JObj cs) w =
      (Inr (Some expires_at, Some (time_str (timedelta_of_us ?us)), spec_urgency (spec_days ?us)),
       w\<lparr> ticks := Suc (ticks w) \<rparr>)"
    using assms(5) calc_parsed[OF assms(1-4), of w] by simp
  then show ?thesis by (simp add: spec_urgency_def)
qed

theorem C3_urgency_of_future_expiration_witness:
  "(\<exists>label. calculate_expiration_info basic_lib
       (JObj [(''retention_expires_at'', JStr ''2024-01-22T10:29:59Z'')])
       (a_world 1705314600000000 Map.empty no_server)
     = (Inr (Some \<lparr> instant = 1705919399000000, utcoffset = Some 0 \<rparr>, label, ''red''),
        (a_world 1705314600000000 Map.empty no_server)\<lparr> ticks := 1 \<rparr>)) \<and>
   (\<exists>label. calculate_expiration_info basic_lib
       (JObj [(''retention_expires_at'', JStr ''2024-01-22T10:30:00Z'')])
       (a_world 1705314600000000 Map.empty no_server)
     = (Inr (Some \<lparr> instant = 1705919400000000, utcoffset = Some 0 \<rparr>, label, ''yellow''),
        (a_world 1705314600000000 Map.empty no_server)\<lparr> ticks := 1 \<rparr>)) \<and>
   (\<exists>label. calculate_expiration_info basic_lib
       (JObj [(''retention_expires_at'', JStr ''2024-01-29T10:29:59Z'')])
       (a_world 1705314600000000 Map.empty no_server)
     = (Inr (Some \<lparr> instant = 1706524199000000, utcoffset = Some 0 \<rparr>, label, ''yellow''),
        (a_world 1705314600000000 Map.empty no_server)\<lparr> ticks := 1 \<rparr>)) \<and>
   (\<exists>label. calculate_expiration_info basic_lib
       (JObj [(''retention_expires_at'', JStr ''2024-01-29T10:30:00Z'')])
       (a_world 1705314600000000 Map.empty no_server)
     = (Inr (Some \<lparr> instant = 1706524200000000, utcoffset = Some 0 \<rparr>, label, ''green''),
        (a_world 1705314600000000 Map.empty no_server)\<lparr> ticks := 1 \<rparr>))"
proof -
  let ?w = "a_world 1705314600000000 Map.empty no_server"
  have t: "ticks ?w = 0" "clock ?w 0 = 1705314600000000"
    by (simp_all add: a_world_def)
  have p6: "fromisoformat basic_lib (replace_Z ''2024-01-22T10:29:59Z'')
              = Inr \<lparr> instant = 1705919399000000, utcoffset = Some 0 \<rparr>"
    by code_simp
  have p7: "fromisoformat basic_lib (replace_Z ''2024-01-22T10:30:00Z'')
              = Inr \<lparr> instant = 1705919400000000, utcoffset = Some 0 \<rparr>"
    by code_simp
  have p13: "fromisoformat basic_lib (replace_Z ''2024-01-29T10:29:59Z'')
              = Inr \<lparr> instant = 1706524199000000, utcoffset = Some 0 \<rparr>"
    by code_simp
  have p14: "fromisoformat basic_lib (replace_Z ''2024-01-29T10:30:00Z'')
              = Inr \<lparr> instant = 1706524200000000, utcoffset = Some 0 \<rparr>"
    by code_simp
  have d: "spec_days (1705919399000000 - 1705314600000000) = 6"
      "spec_days (1705919400000000 - 1705314600000000) = 7"
      "spec_days (1706524199000000 - 1705314600000000) = 13"
      "spec_days (1706524200000000 - 1705314600000000) = 14"
    by (simp_all add: spec_days_def)
  have "\<exists>label. calculate_expiration_info basic_lib
       (JObj [(''retention_expires_at'', JStr ''2024-01-22T10:29:59Z'')]) ?w
     = (Inr (Some \<lparr> instant = 1705919399000000, utcoffset = Some 0 \<rparr>, label, ''red''),
        ?w\<lparr> ticks := 1 \<rparr>)"
  proof -
    have a: "dict_get [(''retention_expires_at'', JStr ''2024-01-22T10:29:59Z'')] ''retention_expires_at''
               = JStr ''2024-01-22T10:29:59Z''"
      by code_simp
    show ?thesis
      using C3_urgency_of_future_expiration[OF a _ p6, of ?w] t d by simp
  qed
  moreover have "\<exists>label. calculate_expiration_info basic_lib
       (JObj [(''retention_expires_at'', JStr ''2024-01-22T10:30:00Z'')]) ?w
     = (Inr (Some \<lparr> instant = 1705919400000000, utcoffset = Some 0 \<rparr>, label, ''yellow''),
        ?w\<lparr> ticks := 1 \<rparr>)"
  proof -
    have a: "dict_get [(''retention_expires_at'', JStr ''2024-01-22T10:30:00Z'')] ''retention_expires_at''
               = JStr ''2024-01-22T10:30:00Z''"
      by code_simp
    show ?thesis
      using C3_urgency_of_future_expiration[OF a _ p7, of ?w] t d by simp
  qed
  moreover have "\<exists>label. calculate_expiration_info basic_lib
       (JObj [(''retention_expires_at'', JStr ''2024-01-29T10:29:59Z'')]) ?w
     = (Inr (Some \<lparr> instant = 1706524199000000, utcoffset = Some 0 \<rparr>, label, ''yellow''),
        ?w\<lparr> ticks := 1 \<rparr>)"
  proof -
    have a: "dict_get [(''retention_expires_at'', JStr ''2024-01-29T10:29:59Z'')] ''retention_expires_at''
               = JStr ''2024-01-29T10:29:59Z''"
      by code_simp
    show ?thesis
      using C3_urgency_of_future_expiration[OF a _ p13, of ?w] t d by simp
  qed
  moreover have "\<exists>label. calculate_expiration_info basic_lib
       (JObj [(''retention_expires_at'', JStr ''2024-01-29T10:30:00Z'')]) ?w
     = (Inr (Some \<lparr> instant = 1706524200000000, utcoffset = Some 0 \<rparr>, label, ''green''),
        ?w\<lparr> ticks := 1 \<rparr>)"
  proof -
    have a: "dict_get [(''retention_expires_at'', JStr ''2024-01-29T10:30:00Z'')] ''retention_expires_at''
               = JStr ''2024-01-29T10:30:00Z''"
      by code_simp
    show ?thesis
      using C3_urgency_of_future_expiration[OF a _ p14, of ?w] t d by simp
  qed
  ultimately show ?thesis by blast
qed


subsection \<open>The filters\<close>

lemma calc_readable:
  assumes "readable L cs"
  shows "\<exists>label color. calculate_expiration_info L (JObj cs) w =
           (Inr (expiration L cs, label, color),
            w\<lparr> ticks := ticks w + (if truthy (dict_get cs ''retention_expires_at'') then 1 else 0) \<rparr>)"
proof (cases "truthy (dict_get cs ''retention_expires_at'')")
  case False
  then have "expiration L cs = None"
    by (auto simp add: expiration_def split: json.splits)
  with False show ?thesis by (simp add: calc_no_expiration)
next
  case True
  with assms obtain s dt where s: "dict_get cs ''retention_expires_at'' = JStr s"
    and p: "fromisoformat L (replace_Z s) = Inr dt" and a: "utcoffset dt \<noteq> None"
    by (auto simp add: readable_def Let_def split: json.splits sum.splits)
  from True s have ne: "s \<noteq> []" by simp
  have "expiration L cs = Some dt" using s p ne by (simp add: expiration_def)
  then show ?thesis using calc_parsed[OF s ne p a, of w] True by auto
qed

lemma days_loop_readable:
  assumes "\<forall>cs \<in> set xs. readable L cs" and "utcoffset now \<noteq> None"
  shows "\<exists>n. days_loop L now d acc (map JObj xs) w =
           (Inr (acc @ map JObj (filter (spec_within_days L (instant now) d) xs)),
            w\<lparr> ticks := ticks w + n \<rparr>)"
  using assms
proof (induction xs arbitrary: acc w)
  case Nil
  have "w = w\<lparr> ticks := ticks w + 0 \<rparr>" by simp
  then show ?case by (auto simp add: returnIO_def intro: exI[of _ 0])
next
  case (Cons cs xs)
  from Cons.prems have r: "readable L cs" by simp
  from calc_readable[OF r, of w] obtain label color k where
    c: "calculate_expiration_info L (JObj cs) w = (Inr (expiration L cs, label, color), w\<lparr> ticks := ticks w + k \<rparr>)"
    by blast
  let ?w = "w\<lparr> ticks := ticks w + k \<rparr>"
  show ?case
  proof (cases "expiration L cs")
    case None
    from Cons.IH[of acc ?w] Cons.prems obtain n where
      "days_loop L now d acc (map JObj xs) ?w =
         (Inr (acc @ map JObj (filter (spec_within_days L (instant now) d) xs)),
          ?w\<lparr> ticks := ticks ?w + n \<rparr>)"
      by auto
    moreover have "\<not> spec_within_days L (instant now) d cs"
      using None by (simp add: spec_within_days_def)
    ultimately show ?thesis using None c
      by (auto simp add: bindIO_def intro: exI[of _ "k + n"])
  next
    case (Some dt)
    have aw: "utcoffset dt \<noteq> None"
      using r Some
      by (auto simp add: readable_def expiration_def Let_def split: json.splits sum.splits if_splits)
    have sub: "dt_sub dt now = Inr (timedelta_of_us (instant dt - instant now))"
      using aw Cons.prems(2) by (simp add: dt_sub_def)
    have days: "td_days (timedelta_of_us (instant dt - instant now)) = spec_days (instant dt - instant now)"
      by (simp add: timedelta_of_us_def spec_days_def)
    have sw: "spec_within_days L (instant now) d cs = (spec_days (instant dt - instant now) \<le> d)"
      using Some by (simp add: spec_within_days_def)
    show ?thesis
    proof (cases "spec_days (instant dt - instant now) \<le> d")
      case True
      from Cons.IH[of "acc @ [JObj cs]" ?w] Cons.prems obtain n where
        "days_loop L now d (acc @ [JObj cs]) (map JObj xs) ?w =
           (Inr ((acc @ [JObj cs]) @ map JObj (filter (spec_within_days L (instant now) d) xs)),
            ?w\<lparr> ticks := ticks ?w + n \<rparr>)"
        by auto
      with Some c sub days True sw show ?thesis
        by (auto simp add: bindIO_def liftE_def intro: exI[of _ "k + n"])
    next
      case False
      from Cons.IH[of acc ?w] Cons.prems obtain n where
        "days_loop L now d acc (map JObj xs) ?w =
           (Inr (acc @ map JObj (filter (spec_within_days L (instant now) d) xs)),
            ?w\<lparr> ticks := ticks ?w + n \<rparr>)"
        by auto
      with Some c sub days False sw show ?thesis
        by (auto simp add: bindIO_def liftE_def intro: exI[of _ "k + n"])
    qed
  qed
qed

lemma filter_days_readable:
  assumes "\<forall>cs \<in> set xs. readable L cs"
  shows "\<exists>n. filter_days L days (JArr (map JObj xs)) w =
           (Inr (JArr (map JObj (filter (spec_days_filter L (clock w (ticks w)) days) xs))),
            w\<lparr> ticks := ticks w + n \<rparr>)"
proof (cases days)
  case None
  have "w = w\<lparr> ticks := ticks w + 0 \<rparr>" by simp
  with None show ?thesis
    by (auto simp add: filter_days_def returnIO_def spec_days_filter_def intro: exI[of _ 0])
next
  case (Some d)
  let ?now = "\<lparr> instant = clock w (ticks w), utcoffset = Some 0 \<rparr>"
  let ?w = "w\<lparr> ticks := Suc (ticks w) \<rparr>"
  from days_loop_readable[OF assms, of ?now d "[]" ?w] obtain n where
    "days_loop L ?now d [] (map JObj xs) ?w =
       (Inr (map JObj (filter (spec_within_days L (clock w (ticks w)) d) xs)),
        ?w\<lparr> ticks := ticks ?w + n \<rparr>)"
    by auto
  moreover have "spec_days_filter L (clock w (ticks w)) (Some d) = spec_within_days L (clock w (ticks w)) d"
    by (rule ext) (simp add: spec_days_filter_def)
  ultimately show ?thesis using Some
    by (auto simp add: filter_days_def bindIO_def now_utc_def liftE_def returnIO_def
        intro: exI[of _ "Suc n"])
qed


lemma filter_codespaces_days_only:
  "filter_codespaces L codespaces days None None = filter_days L days codespaces"
  by (rule ext)
     (simp add: filter_codespaces_def filter_repo_def filter_state_def nonempty_def bindIO_def liftE_def)

text \<open>
  C1. On records on which the calculator returns, the days filter keeps exactly the
  records that have an expiration whose whole days from \<open>now\<close>, by floor division, are at
  most the bound: a record with no expiration is dropped, and a record that has expired
  is kept whenever the bound is not negative. \<open>now\<close> is the reading of the clock that
  the filter itself makes.
\<close>

theorem C1_days_filter:
  assumes "\<forall>cs \<in> set codespaces. readable L cs"
  shows "\<exists>kept w'.
           filter_codespaces L (JArr (map JObj codespaces)) (Some maxDaysUntilExpiry) None None w
             = (Inr (JArr (map JObj kept)), w') \<and>
           kept = filter (spec_within_days L (clock w (ticks w)) maxDaysUntilExpiry) codespaces \<and>
           (\<forall>cs \<in> set codespaces.
              cs \<in> set kept \<longleftrightarrow>
                (\<exists>expires_at. expiration L cs = Some expires_at \<and>
                   (instant expires_at - clock w (ticks w)) div 86400000000 \<le> maxDaysUntilExpiry)) \<and>
           (\<forall>cs \<in> set codespaces. \<forall>expires_at.
              expiration L cs = Some expires_at \<and> instant expires_at \<le> clock w (ticks w) \<and>
              0 \<le> maxDaysUntilExpiry \<longrightarrow> cs \<in> set kept)"
proof -
  let ?now = "clock w (ticks w)"
  let ?kept = "filter (spec_within_days L ?now maxDaysUntilExpiry) codespaces"
  from filter_days_readable[OF assms, of "Some maxDaysUntilExpiry" w] obtain n where
    run: "filter_codespaces L (JArr (map JObj codespaces)) (Some maxDaysUntilExpiry) None None w =
            (Inr (JArr (map JObj
                    (filter (spec_days_filter L ?now (Some maxDaysUntilExpiry)) codespaces))),
             w\<lparr> ticks := ticks w + n \<rparr>)"
    by (auto simp add: filter_codespaces_days_only)
  have same: "spec_days_filter L ?now (Some maxDaysUntilExpiry) = spec_within_days L ?now maxDaysUntilExpiry"
    by (rule ext) (simp add: spec_days_filter_def)
  have iff: "spec_within_days L ?now maxDaysUntilExpiry cs \<longleftrightarrow>
               (\<exists>expires_at. expiration L cs = Some expires_at \<and>
                  (instant expires_at - ?now) div 86400000000 \<le> maxDaysUntilExpiry)" for cs
    by (simp add: spec_within_days_def spec_days_def split: option.splits)
  have expired: "(instant e - ?now) div 86400000000 \<le> maxDaysUntilExpiry"
    if "instant e \<le> ?now" and "0 \<le> maxDaysUntilExpiry" for e
  proof -
    from that(1) have "instant e - ?now \<le> 0" by simp
    then have "(instant e - ?now) div 86400000000 \<le> 0 div 86400000000"
      by (rule zdiv_mono1) simp
    with that(2) show ?thesis by simp
  qed
  have kept_iff: "cs \<in> set ?kept \<longleftrightarrow>
               (\<exists>expires_at. expiration L cs = Some expires_at \<and>
                  (instant expires_at - ?now) div 86400000000 \<le> maxDaysUntilExpiry)"
    if "cs \<in> set codespaces" for cs
    using that iff[of cs] by simp
  have kept_expired: "cs \<in> set ?kept"
    if "cs \<in> set codespaces" and "expiration L cs = Some e" and "instant e \<le> ?now"
      and "0 \<le> maxDaysUntilExpiry" for cs e
    using that kept_iff[of cs] expired[of e] by blast
  from run same have
    "filter_codespaces L (JArr (map JObj codespaces)) (Some maxDaysUntilExpiry) None None w =
       (Inr (JArr (map JObj ?kept)), w\<lparr> ticks := ticks w + n \<rparr>)"
    by simp
  with kept_iff kept_expired show ?thesis
    by blast
qed


theorem C1_days_filter_witness:
  "fst (filter_codespaces basic_lib
          (JArr (map JObj [demo_soon, demo_active, demo_expired, demo_later]))
          (Some 7) None None demo_world)
   = Inr (JArr (map JObj [demo_soon, demo_expired]))"
proof -
  have r: "\<forall>cs \<in> set [demo_soon, demo_active, demo_expired, demo_later]. readable basic_lib cs"
    by code_simp
  have now: "clock demo_world (ticks demo_world) = 1705314600000000"
    by (simp add: demo_world_def a_world_def)
  have f: "filter (spec_within_days basic_lib 1705314600000000 7)
             [demo_soon, demo_active, demo_expired, demo_later] = [demo_soon, demo_expired]"
    by code_simp
  from C1_days_filter[OF r, of 7 demo_world] now f show ?thesis
    by auto
qed

lemma filterE_pure:
  "\<forall>x \<in> set xs. p (JObj x) = Inr (q x) \<Longrightarrow>
     filterE p (map JObj xs) = Inr (map JObj (filter q xs))"
  by (induction xs) (simp_all add: bindE_def)

lemma repo_matches_named:
  "repo_name cs = Some n \<Longrightarrow> repo_matches L r (JObj cs) = Inr (str_in (lower L r) (lower L n))"
  by (auto simp add: repo_matches_def repo_name_def bindE_def
      split: option.splits json.splits)

lemma state_matches_named:
  "state_name cs = Some n \<Longrightarrow> state_matches L s (JObj cs) = Inr (lower L n = lower L s)"
  by (auto simp add: state_matches_def state_name_def bindE_def
      split: option.splits json.splits)

lemma filter_repo_well_formed:
  assumes "\<forall>cs \<in> set xs. well_formed L cs"
  shows "filter_repo L repo (JArr (map JObj xs)) = Inr (JArr (map JObj (filter (spec_repo L repo) xs)))"
proof (cases "nonempty repo")
  case None
  then have "spec_repo L repo = (\<lambda>cs. True)"
    by (intro ext) (simp add: spec_repo_def)
  with None show ?thesis by (simp add: filter_repo_def)
next
  case (Some r)
  have "\<forall>cs \<in> set xs. repo_matches L r (JObj cs) = Inr (spec_repo L repo cs)"
    using assms Some
    by (auto simp add: well_formed_def spec_repo_def repo_matches_named)
  then have "filterE (repo_matches L r) (map JObj xs) = Inr (map JObj (filter (spec_repo L repo) xs))"
    by (rule filterE_pure)
  with Some show ?thesis by (simp add: filter_repo_def bindE_def)
qed

lemma filter_state_well_formed:
  assumes "\<forall>cs \<in> set xs. well_formed L cs"
  shows "filter_state L state (JArr (map JObj xs)) = Inr (JArr (map JObj (filter (spec_state L state) xs)))"
proof (cases "nonempty state")
  case None
  then have "spec_state L state = (\<lambda>cs. True)"
    by (intro ext) (simp add: spec_state_def)
  with None show ?thesis by (simp add: filter_state_def)
next
  case (Some r)
  have "\<forall>cs \<in> set xs. state_matches L r (JObj cs) = Inr (spec_state L state cs)"
    using assms Some
    by (auto simp add: well_formed_def spec_state_def state_matches_named)
  then have "filterE (state_matches L r) (map JObj xs) = Inr (map JObj (filter (spec_state L state) xs))"
    by (rule filterE_pure)
  with Some show ?thesis by (simp add: filter_state_def bindE_def)
qed

lemma apply_stage_well_formed:
  assumes "\<forall>cs \<in> set xs. well_formed L cs"
  shows "\<exists>n. apply_stage L days repo state st (JArr (map JObj xs)) w =
           (Inr (JArr (map JObj
                   (filter (spec_stage L (clock w (ticks w)) days repo state st) xs))),
            w\<lparr> ticks := ticks w + n \<rparr>) \<and> (st \<noteq> ByDays \<longrightarrow> n = 0)"
proof (cases st)
  case ByRepo
  have "spec_stage L (clock w (ticks w)) days repo state ByRepo = spec_repo L repo"
    by (rule ext) simp
  with ByRepo filter_repo_well_formed[OF assms, of repo] show ?thesis
    by (auto simp add: liftE_def intro: exI[of _ 0])
next
  case ByState
  have "spec_stage L (clock w (ticks w)) days repo state ByState = spec_state L state"
    by (rule ext) simp
  with ByState filter_state_well_formed[OF assms, of state] show ?thesis
    by (auto simp add: liftE_def intro: exI[of _ 0])
next
  case ByDays
  have "spec_stage L (clock w (ticks w)) days repo state ByDays
          = spec_days_filter L (clock w (ticks w)) days"
    by (rule ext) simp
  moreover from assms have "\<forall>cs \<in> set xs. readable L cs"
    by (simp add: well_formed_def)
  from filter_days_readable[OF this, of days w] obtain n where
    "filter_days L days (JArr (map JObj xs)) w =
       (Inr (JArr (map JObj (filter (spec_days_filter L (clock w (ticks w)) days) xs))),
        w\<lparr> ticks := ticks w + n \<rparr>)"
    by blast
  ultimately show ?thesis using ByDays by auto
qed

lemma spec_stage_now:
  "st \<noteq> ByDays \<Longrightarrow> spec_stage L now days repo state st cs = spec_stage L now' days repo state st cs"
  by (cases st) simp_all

lemma apply_stages_well_formed:
  assumes "\<forall>cs \<in> set xs. well_formed L cs" and "distinct sts"
  shows "fst (apply_stages L days repo state sts (JArr (map JObj xs)) w) =
           Inr (JArr (map JObj (filter (\<lambda>cs. \<forall>st \<in> set sts.
                  spec_stage L (clock w (ticks w)) days repo state st cs) xs)))"
  using assms
proof (induction sts arbitrary: xs w)
  case Nil
  then show ?case by (simp add: returnIO_def)
next
  case (Cons st sts)
  let ?now = "clock w (ticks w)"
  from apply_stage_well_formed[OF Cons.prems(1), of days repo state st w] obtain n where
    step: "apply_stage L days repo state st (JArr (map JObj xs)) w =
             (Inr (JArr (map JObj (filter (spec_stage L ?now days repo state st) xs))),
              w\<lparr> ticks := ticks w + n \<rparr>)"
    and quiet: "st \<noteq> ByDays \<longrightarrow> n = 0"
    by blast
  let ?w = "w\<lparr> ticks := ticks w + n \<rparr>"
  let ?ys = "filter (spec_stage L ?now days repo state st) xs"
  have wf: "\<forall>cs \<in> set ?ys. well_formed L cs" using Cons.prems(1) by simp
  from Cons.prems(2) have d: "distinct sts" and notin: "st \<notin> set sts" by simp_all
  have rest: "fst (apply_stages L days repo state sts (JArr (map JObj ?ys)) ?w) =
      Inr (JArr (map JObj (filter (\<lambda>cs. \<forall>st \<in> set sts.
             spec_stage L (clock ?w (ticks ?w)) days repo state st cs) ?ys)))"
    by (rule Cons.IH[OF wf d])
  have same: "spec_stage L (clock ?w (ticks ?w)) days repo state st' cs
                = spec_stage L ?now days repo state st' cs" if "st' \<in> set sts" for st' cs
  proof (cases "st = ByDays")
    case True
    with that notin have "st' \<noteq> ByDays" by auto
    then show ?thesis by (rule spec_stage_now)
  next
    case False
    with quiet have "n = 0" by simp
    then show ?thesis by simp
  qed
  have "filter (\<lambda>cs. \<forall>st \<in> set sts. spec_stage L (clock ?w (ticks ?w)) days repo state st cs) ?ys
      = filter (\<lambda>cs. \<forall>st' \<in> set (st # sts). spec_stage L ?now days repo state st' cs) xs"
    using same by (auto intro: filter_cong)
  with rest step show ?case
    by (simp add: bindIO_def)
qed

lemma filter_codespaces_stages:
  "filter_codespaces L codespaces days repo state
     = apply_stages L days repo state [ByRepo, ByState, ByDays] codespaces"
  by (rule ext)
     (simp add: filter_codespaces_def bindIO_def returnIO_def split: prod.splits sum.splits)


text \<open>
  C8. On well-formed records the filters compose by conjunction: the result of
  \<^verbatim>\<open>filter_codespaces\<close> is the list of the records that pass every supplied filter, the
  three blocks give the same list in each of their six orders, and the repository filter
  followed by the state filter gives what the state filter followed by the repository
  filter gives.
\<close>

theorem C8_filters_compose:
  assumes "\<forall>cs \<in> set codespaces. well_formed L cs"
  shows "fst (filter_codespaces L (JArr (map JObj codespaces)) days repo state w) =
           Inr (JArr (map JObj
                  (filter (\<lambda>cs. spec_repo L repo cs \<and> spec_state L state cs \<and>
                             spec_days_filter L (clock w (ticks w)) days cs) codespaces)))
       \<and> (\<forall>order. distinct order \<and> set order = {ByRepo, ByState, ByDays} \<longrightarrow>
             fst (apply_stages L days repo state order (JArr (map JObj codespaces)) w) =
             fst (filter_codespaces L (JArr (map JObj codespaces)) days repo state w))
       \<and> bindE (filter_repo L repo (JArr (map JObj codespaces))) (filter_state L state) =
         bindE (filter_state L state (JArr (map JObj codespaces))) (filter_repo L repo)"
proof -
  let ?P = "\<lambda>cs. spec_repo L repo cs \<and> spec_state L state cs \<and>
                 spec_days_filter L (clock w (ticks w)) days cs"
  have all: "(\<forall>st \<in> {ByRepo, ByState, ByDays}. spec_stage L now days repo state st cs)
               = (spec_repo L repo cs \<and> spec_state L state cs \<and> spec_days_filter L now days cs)"
    for now cs
    by simp
  have any: "fst (apply_stages L days repo state order (JArr (map JObj codespaces)) w)
               = Inr (JArr (map JObj (filter ?P codespaces)))"
    if "distinct order" and "set order = {ByRepo, ByState, ByDays}" for order
    using apply_stages_well_formed[OF assms that(1), of days repo state w] that(2)
    by (simp only: all)
  have src: "fst (filter_codespaces L (JArr (map JObj codespaces)) days repo state w)
               = Inr (JArr (map JObj (filter ?P codespaces)))"
    using any[of "[ByRepo, ByState, ByDays]"] by (simp add: filter_codespaces_stages)
  have wf_repo: "\<forall>cs \<in> set (filter (spec_repo L repo) codespaces). well_formed L cs"
    and wf_state: "\<forall>cs \<in> set (filter (spec_state L state) codespaces). well_formed L cs"
    using assms by simp_all
  have "bindE (filter_repo L repo (JArr (map JObj codespaces))) (filter_state L state)
          = Inr (JArr (map JObj (filter (spec_state L state) (filter (spec_repo L repo) codespaces))))"
    using filter_repo_well_formed[OF assms, of repo] filter_state_well_formed[OF wf_repo, of state]
    by (simp add: bindE_def)
  moreover have "bindE (filter_state L state (JArr (map JObj codespaces))) (filter_repo L repo)
          = Inr (JArr (map JObj (filter (spec_repo L repo) (filter (spec_state L state) codespaces))))"
    using filter_state_well_formed[OF assms, of state] filter_repo_well_formed[OF wf_state, of repo]
    by (simp add: bindE_def)
  ultimately have comm:
    "bindE (filter_repo L repo (JArr (map JObj codespaces))) (filter_state L state) =
         bindE (filter_state L state (JArr (map JObj codespaces))) (filter_repo L repo)"
    by (simp add: conj_commute)
  from src any comm show ?thesis by simp
qed

theorem C8_filters_compose_witness:
  "fst (filter_codespaces basic_lib
          (JArr (map JObj [demo_soon, demo_active, demo_expired, demo_later]))
          (Some 7) (Some ''WEB'') (Some ''shutdown'') demo_world)
     = Inr (JArr (map JObj [demo_expired]))
   \<and> fst (apply_stages basic_lib (Some 7) (Some ''WEB'') (Some ''shutdown'')
          [ByDays, ByState, ByRepo]
          (JArr (map JObj [demo_soon, demo_active, demo_expired, demo_later])) demo_world)
     = Inr (JArr (map JObj [demo_expired]))"
proof -
  let ?xs = "[demo_soon, demo_active, demo_expired, demo_later]"
  have wf: "\<forall>cs \<in> set ?xs. well_formed basic_lib cs"
    by code_simp
  have now: "clock demo_world (ticks demo_world) = 1705314600000000"
    by (simp add: demo_world_def a_world_def)
  have f: "filter (\<lambda>cs. spec_repo basic_lib (Some ''WEB'') cs \<and>
                        spec_state basic_lib (Some ''shutdown'') cs \<and>
                        spec_days_filter basic_lib 1705314600000000 (Some 7) cs) ?xs
           = [demo_expired]"
    by code_simp
  have ord: "distinct [ByDays, ByState, ByRepo] \<and> set [ByDays, ByState, ByRepo] = {ByRepo, ByState, ByDays}"
    by auto
  from C8_filters_compose[OF wf, of "Some 7" "Some ''WEB''" "Some ''shutdown''" demo_world]
  have a: "fst (filter_codespaces basic_lib (JArr (map JObj ?xs)) (Some 7) (Some ''WEB'')
                  (Some ''shutdown'') demo_world)
             = Inr (JArr (map JObj [demo_expired]))"
    and b: "\<forall>order. distinct order \<and> set order = {ByRepo, ByState, ByDays} \<longrightarrow>
             fst (apply_stages basic_lib (Some 7) (Some ''WEB'') (Some ''shutdown'') order
                    (JArr (map JObj ?xs)) demo_world) =
             fst (filter_codespaces basic_lib (JArr (map JObj ?xs)) (Some 7) (Some ''WEB'')
                    (Some ''shutdown'') demo_world)"
    using now f by simp_all
  from b ord a show ?thesis by metis
qed



subsection \<open>The git status\<close>

lemma count_part_int:
  "count_part arrow (JInt n) = Inr (if 0 < n then [arrow @ str_int n] else [])"
  by simp

lemma int_field_get:
  "int_field d k = Some n \<Longrightarrow> dict_get_default d k (JInt 0) = JInt n"
  by (auto simp add: int_field_def dict_get_default_def split: option.splits json.splits)

text \<open>
  C9. For a git-status object whose \<^verbatim>\<open>ahead\<close> and \<^verbatim>\<open>behind\<close> are integers or absent, the
  string is the specification's: \<^verbatim>\<open>uncommitted\<close>, \<^verbatim>\<open>unpushed\<close>, the up arrow with
  \<^verbatim>\<open>ahead\<close> and the down arrow with \<^verbatim>\<open>behind\<close>, in this order, each only when its flag
  is set or its count is positive, joined by a comma and a space; and \<^verbatim>\<open>clean\<close> when no
  part applies.
\<close>

theorem C9_format_git_status:
  assumes "int_field d ''ahead'' = Some ahead" and "int_field d ''behind'' = Some behind"
  shows "format_git_status (JObj d) =
           Inr (spec_git_status (truthy (dict_get d ''has_uncommitted_changes''))
                  (truthy (dict_get d ''has_unpushed_changes'')) ahead behind)
       \<and> (\<not> truthy (dict_get d ''has_uncommitted_changes'') \<and>
          \<not> truthy (dict_get d ''has_unpushed_changes'') \<and> ahead \<le> 0 \<and> behind \<le> 0 \<longrightarrow>
            format_git_status (JObj d) = Inr ''clean'')"
proof -
  have "format_git_status (JObj d) =
           Inr (spec_git_status (truthy (dict_get d ''has_uncommitted_changes''))
                  (truthy (dict_get d ''has_unpushed_changes'')) ahead behind)"
    using int_field_get[OF assms(1)] int_field_get[OF assms(2)]
    by (simp add: format_git_status_def bindE_def dict_get_default_null spec_git_status_def
        spec_git_parts_def Let_def up_arrow_def down_arrow_def)
  then show ?thesis
    by (simp add: spec_git_status_def spec_git_parts_def)
qed

theorem C9_format_git_status_witness:
  "format_git_status (JObj [(''has_uncommitted_changes'', JBool True),
       (''has_unpushed_changes'', JBool False), (''ahead'', JInt 2), (''behind'', JInt 0)])
     = Inr (''uncommitted, '' @ [CHR 0xE2, CHR 0x86, CHR 0x91] @ ''2'')
   \<and> format_git_status (JObj [(''has_uncommitted_changes'', JBool False),
       (''has_unpushed_changes'', JBool False), (''ahead'', JInt 0), (''behind'', JInt 0)])
     = Inr ''clean''
   \<and> format_git_status (JObj [(''has_unpushed_changes'', JBool True), (''behind'', JInt 3)])
     = Inr (''unpushed, '' @ [CHR 0xE2, CHR 0x86, CHR 0x93] @ ''3'')
   \<and> format_git_status (JObj [(''has_uncommitted_changes'', JBool True),
       (''has_unpushed_changes'', JBool True), (''ahead'', JInt 1), (''behind'', JInt 12)])
     = Inr (''uncommitted, unpushed, '' @ [CHR 0xE2, CHR 0x86, CHR 0x91] @ ''1, ''
            @ [CHR 0xE2, CHR 0x86, CHR 0x93] @ ''12'')"
proof -
  let ?d = "[(''has_uncommitted_changes'', JBool True),
       (''has_unpushed_changes'', JBool False), (''ahead'', JInt 2), (''behind'', JInt 0)]"
  let ?c = "[(''has_uncommitted_changes'', JBool False),
       (''has_unpushed_changes'', JBool False), (''ahead'', JInt 0), (''behind'', JInt 0)]"
  let ?b = "[(''has_unpushed_changes'', JBool True), (''behind'', JInt 3)]"
  let ?a = "[(''has_uncommitted_changes'', JBool True),
       (''has_unpushed_changes'', JBool True), (''ahead'', JInt 1), (''behind'', JInt 12)]"
  have i: "int_field ?d ''ahead'' = Some 2" "int_field ?d ''behind'' = Some 0"
    "int_field ?c ''ahead'' = Some 0" "int_field ?c ''behind'' = Some 0"
    "int_field ?b ''ahead'' = Some 0" "int_field ?b ''behind'' = Some 3"
    "int_field ?a ''ahead'' = Some 1" "int_field ?a ''behind'' = Some 12"
    by code_simp+
  have f: "truthy (dict_get ?d ''has_uncommitted_changes'')"
    "\<not> truthy (dict_get ?d ''has_unpushed_changes'')"
    "\<not> truthy (dict_get ?c ''has_uncommitted_changes'')"
    "\<not> truthy (dict_get ?c ''has_unpushed_changes'')"
    "\<not> truthy (dict_get ?b ''has_uncommitted_changes'')"
    "truthy (dict_get ?b ''has_unpushed_changes'')"
    "truthy (dict_get ?a ''has_uncommitted_changes'')"
    "truthy (dict_get ?a ''has_unpushed_changes'')"
    by code_simp+
  have v: "spec_git_status True False 2 0 = ''uncommitted, '' @ [CHR 0xE2, CHR 0x86, CHR 0x91] @ ''2''"
    "spec_git_status False True 0 3 = ''unpushed, '' @ [CHR 0xE2, CHR 0x86, CHR 0x93] @ ''3''"
    "spec_git_status True True 1 12 = ''uncommitted, unpushed, '' @ [CHR 0xE2, CHR 0x86, CHR 0x91]
       @ ''1, '' @ [CHR 0xE2, CHR 0x86, CHR 0x93] @ ''12''"
    by code_simp+
  have "format_git_status (JObj ?d) = Inr (''uncommitted, '' @ [CHR 0xE2, CHR 0x86, CHR 0x91] @ ''2'')"
    using C9_format_git_status[OF i(1,2)] f(1,2) v(1) by simp
  moreover have "format_git_status (JObj ?c) = Inr ''clean''"
    using C9_format_git_status[OF i(3,4)] f(3,4) by blast
  moreover have "format_git_status (JObj ?b)
      = Inr (''unpushed, '' @ [CHR 0xE2, CHR 0x86, CHR 0x93] @ ''3'')"
    using C9_format_git_status[OF i(5,6)] f(5,6) v(2) by simp
  moreover have "format_git_status (JObj ?a)
      = Inr (''uncommitted, unpushed, '' @ [CHR 0xE2, CHR 0x86, CHR 0x91] @ ''1, ''
            @ [CHR 0xE2, CHR 0x86, CHR 0x93] @ ''12'')"
    using C9_format_git_status[OF i(7,8)] f(7,8) v(3) by simp
  ultimately show ?thesis by (intro conjI)
qed


subsection \<open>The JSON renderer\<close>

lemma update_absent: "k \<notin> fst ` set al \<Longrightarrow> AList.update k v al = al @ [(k, v)]"
  by (induction al) auto

lemma calc_readable_label:
  assumes "readable L cs"
  shows "\<exists>label color k. calculate_expiration_info L (JObj cs) w =
           (Inr (expiration L cs, label, color), w\<lparr> ticks := ticks w + k \<rparr>) \<and>
           (case label of None \<Rightarrow> JNull | Some l \<Rightarrow> JStr l)
             = spec_expires_in (clock w (ticks w)) (expiration L cs)"
proof (cases "truthy (dict_get cs ''retention_expires_at'')")
  case False
  then have e: "expiration L cs = None"
    by (auto simp add: expiration_def split: json.splits)
  have "w = w\<lparr> ticks := ticks w + 0 \<rparr>" by simp
  with False e show ?thesis
    by (auto simp add: calc_no_expiration spec_expires_in_def intro: exI[of _ 0])
next
  case True
  with assms obtain s dt where s: "dict_get cs ''retention_expires_at'' = JStr s"
    and p: "fromisoformat L (replace_Z s) = Inr dt" and a: "utcoffset dt \<noteq> None"
    by (auto simp add: readable_def Let_def split: json.splits sum.splits)
  from True s have ne: "s \<noteq> []" by simp
  have e: "expiration L cs = Some dt" using s p ne by (simp add: expiration_def)
  show ?thesis
  proof (cases "instant dt \<le> clock w (ticks w)")
    case True
    with calc_parsed[OF s ne p a, of w] e show ?thesis
      by (auto simp add: spec_expires_in_def intro: exI[of _ 1])
  next
    case False
    then have "time_str (timedelta_of_us (instant dt - clock w (ticks w)))
                 = spec_label (instant dt - clock w (ticks w))"
      by (intro spec_label_time_str) simp
    with False calc_parsed[OF s ne p a, of w] e show ?thesis
      by (auto simp add: spec_expires_in_def intro: exI[of _ 1])
  qed
qed

lemma add_calculated_fields_readable:
  assumes "readable L cs"
  shows "\<exists>k. add_calculated_fields L (JObj cs) w =
           (Inr (JObj (AList.update ''_expires_timestamp''
                   (spec_expires_timestamp L (expiration L cs))
                  (AList.update ''_expires_in''
                     (spec_expires_in (clock w (ticks w)) (expiration L cs)) cs))),
            w\<lparr> ticks := ticks w + k \<rparr>)"
proof -
  from calc_readable_label[OF assms, of w] obtain label color k where
    c: "calculate_expiration_info L (JObj cs) w =
           (Inr (expiration L cs, label, color), w\<lparr> ticks := ticks w + k \<rparr>)"
    and l: "(case label of None \<Rightarrow> JNull | Some l \<Rightarrow> JStr l)
             = spec_expires_in (clock w (ticks w)) (expiration L cs)"
    by blast
  show ?thesis
    using c l
    by (auto simp add: add_calculated_fields_def bindIO_def returnIO_def spec_expires_timestamp_def
        intro: exI[of _ k])
qed


lemma json_loop_readable:
  assumes "\<forall>cs \<in> set xs. readable L cs"
  shows "\<exists>out n. json_loop L (map JObj xs) w = (Inr (map JObj out), w\<lparr> ticks := ticks w + n \<rparr>) \<and>
           list_all2 (\<lambda>cs cs'. \<exists>m. cs' =
               AList.update ''_expires_timestamp'' (spec_expires_timestamp L (expiration L cs))
                 (AList.update ''_expires_in'' (spec_expires_in (clock w m) (expiration L cs)) cs))
             xs out"
  using assms
proof (induction xs arbitrary: w)
  case Nil
  have "w = w\<lparr> ticks := ticks w + 0 \<rparr>" by simp
  then show ?case by (auto simp add: returnIO_def intro: exI[of _ 0])
next
  case (Cons cs xs)
  from Cons.prems have r: "readable L cs" by simp
  from add_calculated_fields_readable[OF r, of w] obtain k where
    hd: "add_calculated_fields L (JObj cs) w =
           (Inr (JObj (AList.update ''_expires_timestamp''
                   (spec_expires_timestamp L (expiration L cs))
                  (AList.update ''_expires_in''
                     (spec_expires_in (clock w (ticks w)) (expiration L cs)) cs))),
            w\<lparr> ticks := ticks w + k \<rparr>)"
    by blast
  let ?w = "w\<lparr> ticks := ticks w + k \<rparr>"
  from Cons.IH[of ?w] Cons.prems obtain out n where
    tl: "json_loop L (map JObj xs) ?w = (Inr (map JObj out), ?w\<lparr> ticks := ticks ?w + n \<rparr>)"
    and rel: "list_all2 (\<lambda>cs cs'. \<exists>m. cs' =
               AList.update ''_expires_timestamp'' (spec_expires_timestamp L (expiration L cs))
                 (AList.update ''_expires_in'' (spec_expires_in (clock ?w m) (expiration L cs)) cs))
             xs out"
    by auto
  from rel have rel': "list_all2 (\<lambda>cs cs'. \<exists>m. cs' =
               AList.update ''_expires_timestamp'' (spec_expires_timestamp L (expiration L cs))
                 (AList.update ''_expires_in'' (spec_expires_in (clock w m) (expiration L cs)) cs))
             xs out"
    by simp
  have "json_loop L (map JObj (cs # xs)) w =
          (Inr (map JObj
                 (AList.update ''_expires_timestamp'' (spec_expires_timestamp L (expiration L cs))
                    (AList.update ''_expires_in''
                       (spec_expires_in (clock w (ticks w)) (expiration L cs)) cs) # out)),
           w\<lparr> ticks := ticks w + (k + n) \<rparr>)"
    using hd tl by (simp add: bindIO_def returnIO_def add.assoc)
  with rel' show ?case by blast
qed

lemma update_frame:
  "map_of (AList.update k2 b (AList.update k1 a cs)) k2 = Some b"
  "k1 \<noteq> k2 \<Longrightarrow> map_of (AList.update k2 b (AList.update k1 a cs)) k1 = Some a"
  "k \<noteq> k1 \<Longrightarrow> k \<noteq> k2 \<Longrightarrow> map_of (AList.update k2 b (AList.update k1 a cs)) k = map_of cs k"
  "fst ` set (AList.update k2 b (AList.update k1 a cs)) = fst ` set cs \<union> {k1, k2}"
  "k1 \<noteq> k2 \<Longrightarrow> k1 \<notin> fst ` set cs \<Longrightarrow> k2 \<notin> fst ` set cs \<Longrightarrow>
     AList.update k2 b (AList.update k1 a cs) = cs @ [(k1, a), (k2, b)]"
  by (auto simp add: AList.update_conv' AList.dom_update update_absent)

text \<open>
  C10. On records on which the calculator returns, the JSON renderer gives every record
  the key \<^verbatim>\<open>_expires_in\<close>, with the relative label or null, and the key
  \<^verbatim>\<open>_expires_timestamp\<close>, with the ISO format of the expiration or null. Every other key
  keeps its value, the keys of the record are its former keys and these two, and a record
  that had neither key is its former self with the two fields appended. The list printed
  is the list of the records so changed.
\<close>

theorem C10_json_fields:
  assumes "\<forall>cs \<in> set codespaces. readable L cs"
  shows "\<exists>out w'. print_codespaces_json L (map JObj codespaces) w = (Inr (map JObj out), w') \<and>
           console w' = console w @ [PrintJson (JArr (map JObj out))] \<and>
           list_all2 (\<lambda>cs cs'.
              (\<exists>m. map_of cs' ''_expires_in''
                      = Some (spec_expires_in (clock w m) (expiration L cs))) \<and>
              map_of cs' ''_expires_timestamp''
                = Some (spec_expires_timestamp L (expiration L cs)) \<and>
              (\<forall>k. k \<noteq> ''_expires_in'' \<and> k \<noteq> ''_expires_timestamp'' \<longrightarrow>
                   map_of cs' k = map_of cs k) \<and>
              fst ` set cs' = fst ` set cs \<union> {''_expires_in'', ''_expires_timestamp''} \<and>
              (''_expires_in'' \<notin> fst ` set cs \<and> ''_expires_timestamp'' \<notin> fst ` set cs \<longrightarrow>
                 (\<exists>a b. cs' = cs @ [(''_expires_in'', a), (''_expires_timestamp'', b)])))
             codespaces out"
proof -
  from json_loop_readable[OF assms, of w] obtain out n where
    run: "json_loop L (map JObj codespaces) w = (Inr (map JObj out), w\<lparr> ticks := ticks w + n \<rparr>)"
    and rel: "list_all2 (\<lambda>cs cs'. \<exists>m. cs' =
               AList.update ''_expires_timestamp'' (spec_expires_timestamp L (expiration L cs))
                 (AList.update ''_expires_in'' (spec_expires_in (clock w m) (expiration L cs)) cs))
             codespaces out"
    by blast
  have neq: "''_expires_in'' \<noteq> ''_expires_timestamp''" by simp
  have frame: "list_all2 (\<lambda>cs cs'.
              (\<exists>m. map_of cs' ''_expires_in''
                      = Some (spec_expires_in (clock w m) (expiration L cs))) \<and>
              map_of cs' ''_expires_timestamp''
                = Some (spec_expires_timestamp L (expiration L cs)) \<and>
              (\<forall>k. k \<noteq> ''_expires_in'' \<and> k \<noteq> ''_expires_timestamp'' \<longrightarrow>
                   map_of cs' k = map_of cs k) \<and>
              fst ` set cs' = fst ` set cs \<union> {''_expires_in'', ''_expires_timestamp''} \<and>
              (''_expires_in'' \<notin> fst ` set cs \<and> ''_expires_timestamp'' \<notin> fst ` set cs \<longrightarrow>
                 (\<exists>a b. cs' = cs @ [(''_expires_in'', a), (''_expires_timestamp'', b)])))
             codespaces out"
    using rel
  proof (rule list_all2_mono)
    fix cs cs'
    assume "\<exists>m. cs' =
               AList.update ''_expires_timestamp'' (spec_expires_timestamp L (expiration L cs))
                 (AList.update ''_expires_in'' (spec_expires_in (clock w m) (expiration L cs)) cs)"
    then obtain m where eq: "cs' =
               AList.update ''_expires_timestamp'' (spec_expires_timestamp L (expiration L cs))
                 (AList.update ''_expires_in'' (spec_expires_in (clock w m) (expiration L cs)) cs)"
      by blast
    show "(\<exists>m. map_of cs' ''_expires_in''
                      = Some (spec_expires_in (clock w m) (expiration L cs))) \<and>
              map_of cs' ''_expires_timestamp''
                = Some (spec_expires_timestamp L (expiration L cs)) \<and>
              (\<forall>k. k \<noteq> ''_expires_in'' \<and> k \<noteq> ''_expires_timestamp'' \<longrightarrow>
                   map_of cs' k = map_of cs k) \<and>
              fst ` set cs' = fst ` set cs \<union> {''_expires_in'', ''_expires_timestamp''} \<and>
              (''_expires_in'' \<notin> fst ` set cs \<and> ''_expires_timestamp'' \<notin> fst ` set cs \<longrightarrow>
                 (\<exists>a b. cs' = cs @ [(''_expires_in'', a), (''_expires_timestamp'', b)]))"
    proof (intro conjI)
      show "\<exists>m. map_of cs' ''_expires_in'' = Some (spec_expires_in (clock w m) (expiration L cs))"
        unfolding eq by (rule exI[of _ m]) (rule update_frame(2)[OF neq])
      show "map_of cs' ''_expires_timestamp'' = Some (spec_expires_timestamp L (expiration L cs))"
        unfolding eq by (rule update_frame(1))
      show "\<forall>k. k \<noteq> ''_expires_in'' \<and> k \<noteq> ''_expires_timestamp'' \<longrightarrow> map_of cs' k = map_of cs k"
        unfolding eq by (intro allI impI, elim conjE) (rule update_frame(3))
      show "fst ` set cs' = fst ` set cs \<union> {''_expires_in'', ''_expires_timestamp''}"
        unfolding eq by (rule update_frame(4))
      show "''_expires_in'' \<notin> fst ` set cs \<and> ''_expires_timestamp'' \<notin> fst ` set cs \<longrightarrow>
                 (\<exists>a b. cs' = cs @ [(''_expires_in'', a), (''_expires_timestamp'', b)])"
        unfolding eq by (intro impI, elim conjE, intro exI) (rule update_frame(5)[OF neq])
    qed
  qed
  have "print_codespaces_json L (map JObj codespaces) w =
          (Inr (map JObj out), w\<lparr> ticks := ticks w + n, console := console w @ [PrintJson (JArr (map JObj out))] \<rparr>)"
    using run by (simp add: print_codespaces_json_def bindIO_def returnIO_def emit_def)
  then have "print_codespaces_json L (map JObj codespaces) w =
          (Inr (map JObj out), w\<lparr> ticks := ticks w + n, console := console w @ [PrintJson (JArr (map JObj out))] \<rparr>)
        \<and> console (w\<lparr> ticks := ticks w + n, console := console w @ [PrintJson (JArr (map JObj out))] \<rparr>)
            = console w @ [PrintJson (JArr (map JObj out))]"
    by simp
  with frame show ?thesis by blast
qed


lemma appended_fields:
  assumes "cs' = cs @ [(k1, a), (k2, b)]" and "k1 \<notin> fst ` set cs" and "k2 \<notin> fst ` set cs"
    and "k1 \<noteq> k2" and "map_of cs' k1 = Some x" and "map_of cs' k2 = Some y"
  shows "cs' = cs @ [(k1, x), (k2, y)]"
proof -
  from assms(2,3) have "map_of cs k1 = None" "map_of cs k2 = None"
    by (simp_all add: map_of_eq_None_iff)
  with assms(1,4,5,6) show ?thesis
    by (simp add: map_add_def)
qed

theorem C10_json_fields_witness:
  "fst (print_codespaces_json basic_lib (map JObj [demo_soon, demo_active]) demo_world) =
     Inr (map JObj
       [demo_soon @ [(''_expires_in'', JStr ''3 days''),
                     (''_expires_timestamp'', JStr ''2024-01-18T10:30:00+00:00'')],
        demo_active @ [(''_expires_in'', JNull), (''_expires_timestamp'', JNull)]])"
proof -
  have r: "\<forall>cs \<in> set [demo_soon, demo_active]. readable basic_lib cs"
    by code_simp
  have keys: "''_expires_in'' \<notin> fst ` set demo_soon" "''_expires_timestamp'' \<notin> fst ` set demo_soon"
    "''_expires_in'' \<notin> fst ` set demo_active" "''_expires_timestamp'' \<notin> fst ` set demo_active"
    by (simp_all add: demo_soon_def demo_active_def)
  have neq: "''_expires_in'' \<noteq> ''_expires_timestamp''" by simp
  have now: "clock demo_world m = 1705314600000000" for m
    by (simp add: demo_world_def a_world_def)
  have v: "spec_expires_in 1705314600000000 (expiration basic_lib demo_soon) = JStr ''3 days''"
    "spec_expires_timestamp basic_lib (expiration basic_lib demo_soon)
       = JStr ''2024-01-18T10:30:00+00:00''"
    "spec_expires_in 1705314600000000 (expiration basic_lib demo_active) = JNull"
    "spec_expires_timestamp basic_lib (expiration basic_lib demo_active) = JNull"
    by code_simp+
  from C10_json_fields[OF r, of demo_world] obtain out w' where
    run: "print_codespaces_json basic_lib (map JObj [demo_soon, demo_active]) demo_world
            = (Inr (map JObj out), w')"
    and rel: "list_all2 (\<lambda>cs cs'.
              (\<exists>m. map_of cs' ''_expires_in''
                      = Some (spec_expires_in (clock demo_world m) (expiration basic_lib cs))) \<and>
              map_of cs' ''_expires_timestamp''
                = Some (spec_expires_timestamp basic_lib (expiration basic_lib cs)) \<and>
              (\<forall>k. k \<noteq> ''_expires_in'' \<and> k \<noteq> ''_expires_timestamp'' \<longrightarrow>
                   map_of cs' k = map_of cs k) \<and>
              fst ` set cs' = fst ` set cs \<union> {''_expires_in'', ''_expires_timestamp''} \<and>
              (''_expires_in'' \<notin> fst ` set cs \<and> ''_expires_timestamp'' \<notin> fst ` set cs \<longrightarrow>
                 (\<exists>a b. cs' = cs @ [(''_expires_in'', a), (''_expires_timestamp'', b)])))
             [demo_soon, demo_active] out"
    by blast
  from rel obtain c1 c2 where out: "out = [c1, c2]"
    and p1: "map_of c1 ''_expires_in'' = Some (JStr ''3 days'')"
            "map_of c1 ''_expires_timestamp'' = Some (JStr ''2024-01-18T10:30:00+00:00'')"
            "\<exists>a b. c1 = demo_soon @ [(''_expires_in'', a), (''_expires_timestamp'', b)]"
    and p2: "map_of c2 ''_expires_in'' = Some JNull"
            "map_of c2 ''_expires_timestamp'' = Some JNull"
            "\<exists>a b. c2 = demo_active @ [(''_expires_in'', a), (''_expires_timestamp'', b)]"
    using keys by (auto simp add: list_all2_Cons1 now v)
  from p1(3) obtain a b where "c1 = demo_soon @ [(''_expires_in'', a), (''_expires_timestamp'', b)]"
    by blast
  from appended_fields[OF this keys(1,2) neq p1(1,2)]
  have c1: "c1 = demo_soon @ [(''_expires_in'', JStr ''3 days''),
                       (''_expires_timestamp'', JStr ''2024-01-18T10:30:00+00:00'')]" .
  from p2(3) obtain a b where "c2 = demo_active @ [(''_expires_in'', a), (''_expires_timestamp'', b)]"
    by blast
  from appended_fields[OF this keys(3,4) neq p2(1,2)]
  have c2: "c2 = demo_active @ [(''_expires_in'', JNull), (''_expires_timestamp'', JNull)]" .
  from run out c1 c2 show ?thesis by simp
qed



subsection \<open>The sorter\<close>

lemma sort_key_cs_readable:
  assumes "readable L cs"
  shows "\<exists>key k. sort_key_cs L (JObj cs) w = (Inr key, w\<lparr> ticks := ticks w + k \<rparr>) \<and>
           instant key = effective_key L cs"
proof -
  from calc_readable[OF assms, of w] obtain label color k where
    c: "calculate_expiration_info L (JObj cs) w =
          (Inr (expiration L cs, label, color), w\<lparr> ticks := ticks w + k \<rparr>)"
    by blast
  show ?thesis
    by (cases "expiration L cs")
       (auto simp add: sort_key_cs_def c bindIO_def returnIO_def effective_key_def
          intro: exI[of _ k])
qed

lemma sort_keys_readable:
  assumes "\<forall>cs \<in> set xs. readable L cs"
  shows "\<exists>ks n. sort_keys L (map JObj xs) w = (Inr ks, w\<lparr> ticks := ticks w + n \<rparr>) \<and>
           map instant ks = map (effective_key L) xs"
  using assms
proof (induction xs arbitrary: w)
  case Nil
  have "w = w\<lparr> ticks := ticks w + 0 \<rparr>" by simp
  then show ?case by (auto simp add: returnIO_def intro: exI[of _ 0])
next
  case (Cons cs xs)
  from Cons.prems have "readable L cs" by simp
  from sort_key_cs_readable[OF this, of w] obtain key k where
    hd: "sort_key_cs L (JObj cs) w = (Inr key, w\<lparr> ticks := ticks w + k \<rparr>)"
    and key: "instant key = effective_key L cs"
    by blast
  let ?w = "w\<lparr> ticks := ticks w + k \<rparr>"
  from Cons.IH[of ?w] Cons.prems obtain ks n where
    tl: "sort_keys L (map JObj xs) ?w = (Inr ks, ?w\<lparr> ticks := ticks ?w + n \<rparr>)"
    and keys: "map instant ks = map (effective_key L) xs"
    by auto
  have "sort_keys L (map JObj (cs # xs)) w = (Inr (key # ks), w\<lparr> ticks := ticks w + (k + n) \<rparr>)"
    using hd tl by (simp add: bindIO_def returnIO_def add.assoc)
  with key keys show ?case by (intro exI[of _ "key # ks"] exI[of _ "k + n"]) simp
qed

lemma insort_key_decorated:
  assumes "length ks = length xs" and "map f ks = map g xs" and "f k = g x"
  shows "map snd (insort_key (\<lambda>(k, x). f k) (k, x) (zip ks xs)) = insort_key g x xs
       \<and> map f (map fst (insort_key (\<lambda>(k, x). f k) (k, x) (zip ks xs))) = map g (insort_key g x xs)
       \<and> (\<exists>ks'. insort_key (\<lambda>(k, x). f k) (k, x) (zip ks xs) = zip ks' (insort_key g x xs)
                \<and> length ks' = Suc (length xs) \<and> map f ks' = map g (insort_key g x xs))"
  using assms
proof (induction ks xs rule: list_induct2)
  case Nil
  show ?case by (auto intro: exI[of _ "[k]"] simp add: assms(3))
next
  case (Cons k' ks x' xs)
  from Cons.prems have h: "f k' = g x'" and t: "map f ks = map g xs" by simp_all
  show ?case
  proof (cases "g x \<le> g x'")
    case True
    with h t Cons.prems(2) Cons.hyps show ?thesis
      by (auto intro!: exI[of _ "k # k' # ks"] simp add: assms(3))
  next
    case False
    from Cons.IH[OF t Cons.prems(2)] obtain ks' where
      z: "insort_key (\<lambda>(k, x). f k) (k, x) (zip ks xs) = zip ks' (insort_key g x xs)"
      and l: "length ks' = Suc (length xs)" and m: "map f ks' = map g (insort_key g x xs)"
      by blast
    with False h Cons.prems(2) show ?thesis
      by (auto intro!: exI[of _ "k' # ks'"] simp add: assms(3))
  qed
qed

lemma sort_key_decorated:
  assumes "length ks = length xs" and "map f ks = map g xs"
  shows "\<exists>ks'. sort_key (\<lambda>(k, x). f k) (zip ks xs) = zip ks' (sort_key g xs)
           \<and> length ks' = length xs \<and> map f ks' = map g (sort_key g xs)"
  using assms
proof (induction ks xs rule: list_induct2)
  case Nil
  then show ?case by simp
next
  case (Cons k ks x xs)
  from Cons.prems have h: "f k = g x" and t: "map f ks = map g xs" by simp_all
  from Cons.IH[OF t] obtain ks' where
    z: "sort_key (\<lambda>(k, x). f k) (zip ks xs) = zip ks' (sort_key g xs)"
    and l: "length ks' = length (sort_key g xs)" and m: "map f ks' = map g (sort_key g xs)"
    by auto
  from insort_key_decorated[OF l m h] obtain ks'' where
    "insort_key (\<lambda>(k, x). f k) (k, x) (zip ks' (sort_key g xs)) = zip ks'' (insort_key g x (sort_key g xs))"
    "length ks'' = Suc (length (sort_key g xs))"
    "map f ks'' = map g (insort_key g x (sort_key g xs))"
    by blast
  with z show ?case by (auto intro!: exI[of _ ks''])
qed

lemma insort_key_map:
  "insort_key f (h x) (map h ys) = map h (insort_key (\<lambda>y. f (h y)) x ys)"
  by (induction ys) simp_all

lemma sort_key_map:
  "sort_key f (map h xs) = map h (sort_key (\<lambda>y. f (h y)) xs)"
  by (induction xs) (simp_all add: insort_key_map)

lemma list_sort_readable:
  assumes "\<forall>cs \<in> set xs. readable L cs"
  shows "\<exists>n. list_sort L (JArr (map JObj xs)) w =
           (Inr (map JObj (sort_key (effective_key L) xs)), w\<lparr> ticks := ticks w + n \<rparr>)"
proof -
  let ?g = "\<lambda>j. case j of JObj d \<Rightarrow> effective_key L d | _ \<Rightarrow> 0"
  from sort_keys_readable[OF assms, of w] obtain ks n where
    run: "sort_keys L (map JObj xs) w = (Inr ks, w\<lparr> ticks := ticks w + n \<rparr>)"
    and keys: "map instant ks = map (effective_key L) xs"
    by blast
  from keys have len: "length ks = length (map JObj xs)"
    using map_eq_imp_length_eq by fastforce
  from keys have keys': "map instant ks = map ?g (map JObj xs)" by simp
  from sort_key_decorated[OF len keys'] obtain ks' where
    "sort_key (\<lambda>(k, x). instant k) (zip ks (map JObj xs)) = zip ks' (sort_key ?g (map JObj xs))"
    and "length ks' = length (map JObj xs)"
    by blast
  then have "map snd (sort_key (\<lambda>(k, x). instant k) (zip ks (map JObj xs)))
               = sort_key ?g (map JObj xs)"
    by simp
  also have "\<dots> = map JObj (sort_key (effective_key L) xs)"
    by (simp add: sort_key_map)
  finally show ?thesis using run
    by (auto simp add: list_sort_def bindIO_def returnIO_def)
qed

lemma sort_key_all_equal:
  "\<forall>x \<in> set xs. f x = c \<Longrightarrow> sort_key f xs = xs"
proof (induction xs)
  case Nil
  then show ?case by simp
next
  case (Cons x xs)
  then have "sort_key f xs = xs" by simp
  with Cons.prems show ?case by (cases xs) simp_all
qed

lemma filter_sort_key_same_key:
  assumes "\<And>x. P x \<Longrightarrow> f x = c"
  shows "filter P (sort_key f xs) = filter P xs"
proof -
  have "filter P (sort_key f xs) = sort_key f (filter P xs)"
    by (rule filter_sort)
  also have "\<dots> = filter P xs"
    using assms by (intro sort_key_all_equal[where c = c]) simp
  finally show ?thesis .
qed

text \<open>
  What the sorter does on records on which the calculator returns: the result is a
  permutation of the input, its keys ascend, records of equal key keep their input order,
  the records with no expiration keep their input order, and a record with no expiration
  comes after every record whose expiration is before 9999-12-31T23:59:59.999999 UTC.
\<close>

lemma list_sort_stable_ascending:
  assumes "\<forall>cs \<in> set codespaces. readable L cs"
  shows "\<exists>sorted_cs w'. list_sort L (JArr (map JObj codespaces)) w = (Inr (map JObj sorted_cs), w') \<and>
           sorted (map (effective_key L) sorted_cs) \<and>
           mset sorted_cs = mset codespaces \<and>
           (\<forall>t. filter (\<lambda>cs. effective_key L cs = t) sorted_cs =
                filter (\<lambda>cs. effective_key L cs = t) codespaces) \<and>
           filter (\<lambda>cs. expiration L cs = None) sorted_cs =
             filter (\<lambda>cs. expiration L cs = None) codespaces \<and>
           (\<forall>i j. i < length sorted_cs \<and> j < length sorted_cs \<and>
                  expiration L (sorted_cs ! i) = None \<and>
                  (\<exists>e. expiration L (sorted_cs ! j) = Some e \<and>
                       instant e < instant datetime_max_utc) \<longrightarrow> j < i)"
proof -
  let ?k = "effective_key L"
  let ?out = "sort_key ?k codespaces"
  from list_sort_readable[OF assms, of w] obtain n where
    run: "list_sort L (JArr (map JObj codespaces)) w = (Inr (map JObj ?out), w\<lparr> ticks := ticks w + n \<rparr>)"
    by blast
  have srt: "sorted (map ?k ?out)" by (rule sorted_sort_key)
  have perm: "mset ?out = mset codespaces" by simp
  have stable: "\<forall>t. filter (\<lambda>cs. ?k cs = t) ?out = filter (\<lambda>cs. ?k cs = t) codespaces"
    by (simp add: sort_key_stable)
  have none: "filter (\<lambda>cs. expiration L cs = None) ?out =
             filter (\<lambda>cs. expiration L cs = None) codespaces"
    by (rule filter_sort_key_same_key[where c = "instant datetime_max_utc"])
       (simp add: effective_key_def)
  have last: "j < i"
    if "i < length ?out" and "j < length ?out" and "expiration L (?out ! i) = None"
      and "expiration L (?out ! j) = Some e" and "instant e < instant datetime_max_utc"
    for i j e
  proof (rule ccontr)
    assume "\<not> j < i"
    then have "i \<le> j" by simp
    with srt that(2) have "map ?k ?out ! i \<le> map ?k ?out ! j"
      by (intro sorted_nth_mono) simp_all
    with that(1,2) have "?k (?out ! i) \<le> ?k (?out ! j)" by simp
    with that(3,4,5) show False by (simp add: effective_key_def)
  qed
  from run srt perm stable none last show ?thesis
    by blast
qed


text \<open>
  C5. The comment at the sort says \<^verbatim>\<open>soonest first, None values last\<close>, and so does
  the specification. The code does not do it at this input: an expiration of
  9999-12-31T23:59:59 at one hour west of UTC is a valid timestamp, it lies after the key
  that a record with no expiration gets, which is \<^verbatim>\<open>datetime.max\<close> taken as UTC, and
  the sorter moves the record with no expiration, second in the input, before the record
  that expires.
\<close>

theorem C5_sentinel_failing_input:
  "fst (list_sort basic_lib (JArr (map JObj [demo_far, demo_active])) demo_world)
     = Inr (map JObj [demo_active, demo_far])
   \<and> expiration basic_lib demo_active = None
   \<and> expiration basic_lib demo_far
       = Some \<lparr> instant = 253402304399000000, utcoffset = Some (- 3600) \<rparr>"
proof -
  have r: "\<forall>cs \<in> set [demo_far, demo_active]. readable basic_lib cs"
    by code_simp
  have s: "sort_key (effective_key basic_lib) [demo_far, demo_active] = [demo_active, demo_far]"
    by code_simp
  from list_sort_readable[OF r, of demo_world] s
  have "fst (list_sort basic_lib (JArr (map JObj [demo_far, demo_active])) demo_world)
          = Inr (map JObj [demo_active, demo_far])"
    by auto
  moreover have "expiration basic_lib demo_active = None"
    "expiration basic_lib demo_far
       = Some \<lparr> instant = 253402304399000000, utcoffset = Some (- 3600) \<rparr>"
    by code_simp+
  ultimately show ?thesis by (intro conjI)
qed


subsection \<open>The credential and the request\<close>

lemma print_all_console:
  "\<forall>s \<in> set ss. \<not> markup_error L s \<Longrightarrow>
     print_all L ss w = (Inr (), w\<lparr> console := console w @ map Print ss \<rparr>)"
proof (induction ss arbitrary: w)
  case Nil
  then show ?case by (simp add: returnIO_def)
next
  case (Cons s ss)
  then show ?case by (simp add: bindIO_def console_print_def)
qed

lemma strip_names:
  "str_strip ''red'' = ''red''" "str_strip ''cyan'' = ''cyan''"
  "str_strip ''yellow'' = ''yellow''" "str_strip ''dim'' = ''dim''"
  by code_simp+

lemmas markup_simps = markup_error_def tag_start_def backslash_def partition_eq_def
  meta_fails_def strip_names newline_def

lemma guidance_renders: "\<forall>s \<in> set token_guidance. \<not> markup_error L s"
  by (simp add: token_guidance_def markup_simps)



lemma missing_token:
  assumes "token = None \<or> token = Some []"
    and "environ w ''GITHUB_TOKEN'' = None \<or> environ w ''GITHUB_TOKEN'' = Some []"
  shows "get_github_token L token w =
           (Inl (Exit 1), w\<lparr> console := console w @ map Print token_guidance \<rparr>)"
  using assms
  by (auto simp add: get_github_token_def nonempty_def os_getenv_def bindIO_def raiseIO_def
      print_all_console[OF guidance_renders])


text \<open>
  C6. The credential resolver returns the explicit token when it is not empty, otherwise
  the value of \<^verbatim>\<open>GITHUB_TOKEN\<close> when that is set and not empty, and otherwise prints the
  eight lines of guidance and raises \<^verbatim>\<open>typer.Exit(1)\<close>; \<^verbatim>\<open>main\<close> then ends with exit
  status 1, having printed the guidance and sent no request. The lines are those of the
  source, and every one of them renders.
\<close>

theorem C6_credential_resolver:
  "(token = Some t \<and> t \<noteq> [] \<longrightarrow> get_github_token L token w = (Inr t, w))
   \<and> ((token = None \<or> token = Some []) \<and> environ w ''GITHUB_TOKEN'' = Some e \<and> e \<noteq> [] \<longrightarrow>
        get_github_token L token w = (Inr e, w))
   \<and> ((token = None \<or> token = Some []) \<and>
       (environ w ''GITHUB_TOKEN'' = None \<or> environ w ''GITHUB_TOKEN'' = Some []) \<longrightarrow>
        get_github_token L token w =
          (Inl (Exit 1), w\<lparr> console := console w @ map Print token_guidance \<rparr>) \<and>
        main L token days repo state json_output w =
          (Inl (Exit 1), w\<lparr> console := console w @ map Print token_guidance \<rparr>) \<and>
        exit_status (fst (main L token days repo state json_output w)) = 1 \<and>
        sent (snd (main L token days repo state json_output w)) = sent w)
   \<and> token_guidance =
       [''[red]Error:[/red] No GitHub token provided.'',
        [CHR 0x0A] @ ''Please provide a token using one of these methods:'',
        ''1. Pass it as a parameter: [cyan]codespaces --token YOUR_TOKEN[/cyan]'',
        ''2. Set it in your environment: [cyan]export GITHUB_TOKEN=YOUR_TOKEN[/cyan]'',
        ''3. Create a .env file with: [cyan]GITHUB_TOKEN=YOUR_TOKEN[/cyan]'',
        [CHR 0x0A] @ ''[yellow]Note:[/yellow] The token should be a '' @ [CHR 0x27]
          @ ''Personal access token (classic)'' @ [CHR 0x27] @ '' with:'',
        ''  - '' @ [CHR 0x27] @ ''codespace'' @ [CHR 0x27] @ '' permission enabled'',
        ''  - Authorization for any organization that owns your codespaces'']"
proof (intro conjI impI)
  assume "token = Some t \<and> t \<noteq> []"
  then show "get_github_token L token w = (Inr t, w)"
    by (simp add: get_github_token_def nonempty_def returnIO_def)
next
  assume "(token = None \<or> token = Some []) \<and> environ w ''GITHUB_TOKEN'' = Some e \<and> e \<noteq> []"
  then show "get_github_token L token w = (Inr e, w)"
    by (auto simp add: get_github_token_def nonempty_def os_getenv_def bindIO_def returnIO_def)
next
  assume a: "(token = None \<or> token = Some []) \<and>
       (environ w ''GITHUB_TOKEN'' = None \<or> environ w ''GITHUB_TOKEN'' = Some [])"
  then have g: "get_github_token L token w =
          (Inl (Exit 1), w\<lparr> console := console w @ map Print token_guidance \<rparr>)"
    by (intro missing_token) simp_all
  then have m: "main L token days repo state json_output w =
          (Inl (Exit 1), w\<lparr> console := console w @ map Print token_guidance \<rparr>)"
    by (simp add: main_def bindIO_def)
  show "get_github_token L token w =
          (Inl (Exit 1), w\<lparr> console := console w @ map Print token_guidance \<rparr>)" by (rule g)
  show "main L token days repo state json_output w =
          (Inl (Exit 1), w\<lparr> console := console w @ map Print token_guidance \<rparr>)" by (rule m)
  show "exit_status (fst (main L token days repo state json_output w)) = 1" by (simp add: m)
  show "sent (snd (main L token days repo state json_output w)) = sent w" by (simp add: m)
next
  show "token_guidance =
       [''[red]Error:[/red] No GitHub token provided.'',
        [CHR 0x0A] @ ''Please provide a token using one of these methods:'',
        ''1. Pass it as a parameter: [cyan]codespaces --token YOUR_TOKEN[/cyan]'',
        ''2. Set it in your environment: [cyan]export GITHUB_TOKEN=YOUR_TOKEN[/cyan]'',
        ''3. Create a .env file with: [cyan]GITHUB_TOKEN=YOUR_TOKEN[/cyan]'',
        [CHR 0x0A] @ ''[yellow]Note:[/yellow] The token should be a '' @ [CHR 0x27]
          @ ''Personal access token (classic)'' @ [CHR 0x27] @ '' with:'',
        ''  - '' @ [CHR 0x27] @ ''codespace'' @ [CHR 0x27] @ '' permission enabled'',
        ''  - Authorization for any organization that owns your codespaces'']"
    by (simp add: token_guidance_def newline_def)
qed

theorem C6_credential_resolver_witness:
  "get_github_token basic_lib (Some ''ghp_explicit'')
     (a_world 0 [''GITHUB_TOKEN'' \<mapsto> ''ghp_env''] no_server)
     = (Inr ''ghp_explicit'', a_world 0 [''GITHUB_TOKEN'' \<mapsto> ''ghp_env''] no_server)
   \<and> get_github_token basic_lib None (a_world 0 [''GITHUB_TOKEN'' \<mapsto> ''ghp_env''] no_server)
     = (Inr ''ghp_env'', a_world 0 [''GITHUB_TOKEN'' \<mapsto> ''ghp_env''] no_server)
   \<and> main basic_lib (Some []) None None None False demo_world
     = (Inl (Exit 1),
        demo_world\<lparr> console :=
          [Print ''[red]Error:[/red] No GitHub token provided.'',
           Print ([CHR 0x0A] @ ''Please provide a token using one of these methods:''),
           Print ''1. Pass it as a parameter: [cyan]codespaces --token YOUR_TOKEN[/cyan]'',
           Print ''2. Set it in your environment: [cyan]export GITHUB_TOKEN=YOUR_TOKEN[/cyan]'',
           Print ''3. Create a .env file with: [cyan]GITHUB_TOKEN=YOUR_TOKEN[/cyan]'',
           Print ([CHR 0x0A] @ ''[yellow]Note:[/yellow] The token should be a '' @ [CHR 0x27]
             @ ''Personal access token (classic)'' @ [CHR 0x27] @ '' with:''),
           Print (''  - '' @ [CHR 0x27] @ ''codespace'' @ [CHR 0x27] @ '' permission enabled''),
           Print ''  - Authorization for any organization that owns your codespaces''] \<rparr>)
   \<and> exit_status (fst (main basic_lib (Some []) None None None False demo_world)) = 1
   \<and> sent (snd (main basic_lib (Some []) None None None False demo_world)) = []"
proof -
  let ?w = "a_world 0 [''GITHUB_TOKEN'' \<mapsto> ''ghp_env''] no_server"
  have e: "environ ?w ''GITHUB_TOKEN'' = Some ''ghp_env''"
    by (simp add: a_world_def)
  have d: "environ demo_world ''GITHUB_TOKEN'' = None" "console demo_world = []"
    "sent demo_world = []"
    by (simp_all add: demo_world_def a_world_def)
  have "get_github_token basic_lib (Some ''ghp_explicit'') ?w = (Inr ''ghp_explicit'', ?w)"
    using C6_credential_resolver[where token = "Some ''ghp_explicit''" and t = "''ghp_explicit''"
        and w = ?w and L = basic_lib]
    by simp
  moreover have "get_github_token basic_lib None ?w = (Inr ''ghp_env'', ?w)"
    using C6_credential_resolver[where token = None and e = "''ghp_env''" and w = ?w
        and L = basic_lib] e
    by simp
  moreover have "main basic_lib (Some []) None None None False demo_world
     = (Inl (Exit 1),
        demo_world\<lparr> console :=
          [Print ''[red]Error:[/red] No GitHub token provided.'',
           Print ([CHR 0x0A] @ ''Please provide a token using one of these methods:''),
           Print ''1. Pass it as a parameter: [cyan]codespaces --token YOUR_TOKEN[/cyan]'',
           Print ''2. Set it in your environment: [cyan]export GITHUB_TOKEN=YOUR_TOKEN[/cyan]'',
           Print ''3. Create a .env file with: [cyan]GITHUB_TOKEN=YOUR_TOKEN[/cyan]'',
           Print ([CHR 0x0A] @ ''[yellow]Note:[/yellow] The token should be a '' @ [CHR 0x27]
             @ ''Personal access token (classic)'' @ [CHR 0x27] @ '' with:''),
           Print (''  - '' @ [CHR 0x27] @ ''codespace'' @ [CHR 0x27] @ '' permission enabled''),
           Print ''  - Authorization for any organization that owns your codespaces''] \<rparr>)
   \<and> exit_status (fst (main basic_lib (Some []) None None None False demo_world)) = 1
   \<and> sent (snd (main basic_lib (Some []) None None None False demo_world)) = []"
  proof -
    note T = C6_credential_resolver[where token = "Some []" and w = demo_world and L = basic_lib
        and days = None and repo = None and state = None and json_output = False]
    have h: "(Some [] = (None :: string option) \<or> Some [] = Some ([] :: string)) \<and>
       (environ demo_world ''GITHUB_TOKEN'' = None \<or> environ demo_world ''GITHUB_TOKEN'' = Some [])"
      using d(1) by simp
    from T[THEN conjunct2, THEN conjunct2, THEN conjunct1, THEN mp, OF h]
    have m: "main basic_lib (Some []) None None None False demo_world =
          (Inl (Exit 1), demo_world\<lparr> console := console demo_world @ map Print token_guidance \<rparr>)"
      and x: "exit_status (fst (main basic_lib (Some []) None None None False demo_world)) = 1"
      and n: "sent (snd (main basic_lib (Some []) None None None False demo_world)) = sent demo_world"
      by blast+
    note g = T[THEN conjunct2, THEN conjunct2, THEN conjunct2]
    have p: "console demo_world @ map Print token_guidance =
          [Print ''[red]Error:[/red] No GitHub token provided.'',
           Print ([CHR 0x0A] @ ''Please provide a token using one of these methods:''),
           Print ''1. Pass it as a parameter: [cyan]codespaces --token YOUR_TOKEN[/cyan]'',
           Print ''2. Set it in your environment: [cyan]export GITHUB_TOKEN=YOUR_TOKEN[/cyan]'',
           Print ''3. Create a .env file with: [cyan]GITHUB_TOKEN=YOUR_TOKEN[/cyan]'',
           Print ([CHR 0x0A] @ ''[yellow]Note:[/yellow] The token should be a '' @ [CHR 0x27]
             @ ''Personal access token (classic)'' @ [CHR 0x27] @ '' with:''),
           Print (''  - '' @ [CHR 0x27] @ ''codespace'' @ [CHR 0x27] @ '' permission enabled''),
           Print ''  - Authorization for any organization that owns your codespaces'']"
      unfolding d(2) by (subst g) simp
    from m x n show ?thesis unfolding p d(3) by (intro conjI)
  qed
  ultimately show ?thesis by blast
qed









end
